theory Spec2Isabelle
  imports Complex_Main "HOL-Library.AList"
begin

section \<open>Query Opportunity Analyzer: the normalisation and scoring pipeline\<close>

text \<open>
  A shallow embedding of \<^verbatim>\<open>src/streamlit_app.py\<close>: the header cleaner
  \<^verbatim>\<open>_clean_col\<close>, the cell coercers \<^verbatim>\<open>_to_number\<close> and
  \<^verbatim>\<open>_coerce_percent\<close>, and the pipeline \<^verbatim>\<open>prep_df\<close>.

  Conventions of the embedding.
  \<^item> A Python/numpy float is a value of \<open>pyfloat\<close>: not-a-number, the two infinities,
    or a finite number. Finite arithmetic is exact real arithmetic (rounding, overflow and
    the sign of zero are not modelled); everything the source does with NaN and with
    the infinities (\<^verbatim>\<open>pd.isna\<close>, \<^verbatim>\<open>np.isfinite\<close>, comparisons that
    are false on NaN, \<open>inf - inf\<close>, \<open>inf / inf\<close>) is written out.
  \<^item> A string is a list of characters with code points below 256.
  \<^item> A pandas Series is a list; a DataFrame is a row count with an ordered list of
    labelled columns.
\<close>

subsection \<open>Floats with NaN and infinities\<close>

datatype pyfloat = NaN | NInf | Fin real | PInf

fun isna :: "pyfloat \<Rightarrow> bool" where
  "isna NaN = True"
| "isna _ = False"

fun isfinite :: "pyfloat \<Rightarrow> bool" where
  "isfinite (Fin _) = True"
| "isfinite _ = False"

fun fneg :: "pyfloat \<Rightarrow> pyfloat" where
  "fneg NaN = NaN"
| "fneg NInf = PInf"
| "fneg (Fin a) = Fin (- a)"
| "fneg PInf = NInf"

fun fadd :: "pyfloat \<Rightarrow> pyfloat \<Rightarrow> pyfloat" where
  "fadd NaN _ = NaN"
| "fadd _ NaN = NaN"
| "fadd (Fin a) (Fin b) = Fin (a + b)"
| "fadd PInf NInf = NaN"
| "fadd NInf PInf = NaN"
| "fadd PInf _ = PInf"
| "fadd _ PInf = PInf"
| "fadd NInf _ = NInf"
| "fadd _ NInf = NInf"

definition fsub :: "pyfloat \<Rightarrow> pyfloat \<Rightarrow> pyfloat" where
  "fsub a b = fadd a (fneg b)"

text \<open>The sign of a non-NaN float: \<open>-1\<close>, \<open>0\<close> or \<open>1\<close>.\<close>

fun fsign :: "pyfloat \<Rightarrow> int" where
  "fsign NaN = 0"
| "fsign NInf = - 1"
| "fsign (Fin a) = (if a < 0 then - 1 else if a = 0 then 0 else 1)"
| "fsign PInf = 1"

definition inf_of_sign :: "int \<Rightarrow> pyfloat" where
  "inf_of_sign s = (if s = 0 then NaN else if s < 0 then NInf else PInf)"

fun fmul :: "pyfloat \<Rightarrow> pyfloat \<Rightarrow> pyfloat" where
  "fmul NaN _ = NaN"
| "fmul _ NaN = NaN"
| "fmul (Fin a) (Fin b) = Fin (a * b)"
| "fmul a b = inf_of_sign (fsign a * fsign b)"

text \<open>
  Division as numpy performs it on float arrays: no exception, \<open>x / 0\<close> is an infinity
  of the sign of \<open>x\<close> (NaN for \<open>0 / 0\<close>), a finite number over an infinity is \<open>0\<close>, and
  an infinity over an infinity is NaN. The pipeline only ever divides by \<open>100\<close>, by \<open>2\<close>
  and by a maximum it has tested to be positive.
\<close>

fun fdiv :: "pyfloat \<Rightarrow> pyfloat \<Rightarrow> pyfloat" where
  "fdiv NaN _ = NaN"
| "fdiv _ NaN = NaN"
| "fdiv (Fin a) (Fin b) = (if b = 0 then inf_of_sign (fsign (Fin a)) else Fin (a / b))"
| "fdiv (Fin a) _ = Fin 0"
| "fdiv a (Fin b) = inf_of_sign (fsign a * (if b < 0 then - 1 else 1))"
| "fdiv _ _ = NaN"

text \<open>Comparisons: false as soon as one side is NaN.\<close>

fun flt :: "pyfloat \<Rightarrow> pyfloat \<Rightarrow> bool" where
  "flt NaN _ = False"
| "flt _ NaN = False"
| "flt (Fin a) (Fin b) = (a < b)"
| "flt NInf NInf = False"
| "flt NInf _ = True"
| "flt PInf _ = False"
| "flt (Fin a) PInf = True"
| "flt (Fin a) NInf = False"

definition fgt :: "pyfloat \<Rightarrow> pyfloat \<Rightarrow> bool" where
  "fgt a b = flt b a"

definition fge :: "pyfloat \<Rightarrow> pyfloat \<Rightarrow> bool" where
  "fge a b = (\<not> isna a \<and> \<not> isna b \<and> \<not> flt a b)"

definition fle :: "pyfloat \<Rightarrow> pyfloat \<Rightarrow> bool" where
  "fle a b = fge b a"

text \<open>\<^verbatim>\<open>np.maximum\<close>: the larger of the two, NaN if either is NaN.\<close>

definition fmaximum :: "pyfloat \<Rightarrow> pyfloat \<Rightarrow> pyfloat" where
  "fmaximum a b = (if isna a \<or> isna b then NaN else if flt a b then b else a)"

text \<open>\<^verbatim>\<open>np.log1p\<close>.\<close>

fun log1p :: "pyfloat \<Rightarrow> pyfloat" where
  "log1p NaN = NaN"
| "log1p NInf = NaN"
| "log1p PInf = PInf"
| "log1p (Fin a) = (if a < - 1 then NaN else if a = - 1 then NInf else Fin (ln (1 + a)))"

subsection \<open>Strings\<close>

text \<open>
  The characters \<^verbatim>\<open>str.isspace\<close> accepts, among the code points below 256:
  tab to carriage return, the four separators \<open>0x1c\<close> to \<open>0x1f\<close>, the space, next-line
  and the no-break space. \<^verbatim>\<open>str.strip()\<close> removes them at both ends and the
  pattern \<^verbatim>\<open>\s\<close> matches them.
\<close>

definition is_space :: "char \<Rightarrow> bool" where
  "is_space c = ((of_char c :: nat) \<in> {9, 10, 11, 12, 13, 28, 29, 30, 31, 32, 133, 160})"

definition strip :: "string \<Rightarrow> string" where
  "strip s = rev (dropWhile is_space (rev (dropWhile is_space s)))"

text \<open>
  \<^verbatim>\<open>str.replace(old, new)\<close> for a non-empty \<open>old\<close>: the occurrences are replaced
  from the left and do not overlap.
\<close>

function replace :: "string \<Rightarrow> string \<Rightarrow> string \<Rightarrow> string" where
  "replace old new [] = []"
| "replace old new (x # xs) =
     (if old \<noteq> [] \<and> take (length old) (x # xs) = old
      then new @ replace old new (drop (length old) (x # xs))
      else x # replace old new xs)"
  by pat_completeness auto
termination
  by (relation "measure (\<lambda>(old, new, s). length s)") (auto simp: Suc_le_eq)

text \<open>\<^verbatim>\<open>re.sub(r"\s+", " ", c)\<close>: every maximal run of whitespace becomes one space.\<close>

function re_sub_ws :: "string \<Rightarrow> string" where
  "re_sub_ws [] = []"
| "re_sub_ws (x # xs) =
     (if is_space x then CHR '' '' # re_sub_ws (dropWhile is_space xs)
      else x # re_sub_ws xs)"
  by pat_completeness auto
termination
  by (relation "measure length") (auto simp: length_dropWhile_le less_Suc_eq_le)

subsection \<open>The header cleaner\<close>

text \<open>
  The names bound in the module's namespace when \<^verbatim>\<open>_clean_col\<close> is called: the
  five imports of lines 2 to 6 (\<^verbatim>\<open>io\<close>, \<^verbatim>\<open>math\<close>, \<^verbatim>\<open>pandas as pd\<close>,
  \<^verbatim>\<open>numpy as np\<close>, \<^verbatim>\<open>streamlit as st\<close>) and the module's own constants,
  functions and variables. A global name that a function body reads and that is bound
  neither here nor among Python's builtins raises \<^verbatim>\<open>NameError\<close> when the line runs.
\<close>

datatype py_error = NameError string

definition module_names :: "string list" where
  "module_names =
     [''io'', ''math'', ''pd'', ''np'', ''st'',
      ''CUSTOM_CSS'', ''PCT_COLS_CANON'', ''NUM_COLS_CANON'', ''SHARE_COLS_CANON'',
      ''DELTA_COLS_CANON'', ''_clean_col'', ''_to_number'', ''_coerce_percent'',
      ''load_anything'', ''prep_df'', ''fmt_pct'', ''uploaded'', ''use_demo'', ''df_raw'']"

text \<open>Lines 86 to 93: the eight literal replacements, in the order of the source.\<close>

definition fix_typos :: "string \<Rightarrow> string" where
  "fix_typos c0 =
     (let c = replace ''Our Conversion Rate '' ''Our Conversion Rate'' c0;
          c = replace ''Add to Cart - ASIN Share '' ''Add to Cart - ASIN Share'' c;
          c = replace ''Impressions - ASIN Share'' ''Impressions - ASIN Share'' c;
          c = replace ''Clicks - ASIN Share'' ''Clicks - ASIN Share'' c;
          c = replace ''Purchases - ASIN Share'' ''Purchases - ASIN Share'' c;
          c = replace ''Delta - Impressions to Clicks'' ''Delta - Impressions to Clicks'' c;
          c = replace ''Delta - Clicks to Add to Cart'' ''Delta - Clicks to Add to Cart'' c;
          c = replace ''Delta - Add to Cart to Purchases'' ''Delta - Add to Cart to Purchases'' c
      in c)"

text \<open>
  \<^verbatim>\<open>_clean_col\<close> (lines 79 to 94). A header is a string or \<^verbatim>\<open>None\<close>. Line 84 reads
  the global \<^verbatim>\<open>re\<close>; the lookup is the test on \<open>module_names\<close>.
\<close>

definition clean_col :: "string option \<Rightarrow> py_error + string" where
  "clean_col c =
     (case c of
        None \<Rightarrow> Inr []
      | Some c0 \<Rightarrow>
          (let c1 = strip c0;
               c2 = replace [CHR 0x0A] '' '' c1
           in if ''re'' \<in> set module_names
              then Inr (fix_typos (re_sub_ws c2))
              else Inl (NameError ''re'')))"

text \<open>
  Lines 151 and 277: \<^verbatim>\<open>[_clean_col(c) for c in df.columns]\<close>; the first header that
  raises ends the comprehension.
\<close>

fun clean_cols :: "string option list \<Rightarrow> py_error + string list" where
  "clean_cols [] = Inr []"
| "clean_cols (c # cs) =
     (case clean_col c of
        Inl e \<Rightarrow> Inl e
      | Inr h \<Rightarrow> (case clean_cols cs of Inl e \<Rightarrow> Inl e | Inr hs \<Rightarrow> Inr (h # hs)))"

subsection \<open>Cells and their coercion\<close>

text \<open>
  A cell of an ingested table is a float (a missing cell is NaN, as
  \<^verbatim>\<open>read_csv\<close> and \<^verbatim>\<open>read_excel\<close> deliver it; an integer cell is read through
  \<^verbatim>\<open>float(x)\<close>) or a string. Python's own \<^verbatim>\<open>float(s)\<close> on a string and
  \<^verbatim>\<open>str(x)\<close> on a float are parameters of the model: \<open>float_of_str s = None\<close> is the
  \<^verbatim>\<open>ValueError\<close> that the source catches. So is the one behaviour of pandas that
  differs between the versions the repository can be installed with (it pins none):
  \<^verbatim>\<open>Series.astype(str)\<close> prints a missing cell as the string \<open>nan\<close> before pandas 3
  and keeps it missing from pandas 3 on; \<open>astype_str_keeps_na\<close> says which.
\<close>

datatype cell = Num pyfloat | Str string

record builtins =
  float_of_str :: "string \<Rightarrow> pyfloat option"
  str_of_float :: "pyfloat \<Rightarrow> string"
  astype_str_keeps_na :: bool

text \<open>\<^verbatim>\<open>_to_number\<close> (lines 96 to 115).\<close>

definition to_number :: "'a builtins_scheme \<Rightarrow> cell \<Rightarrow> pyfloat" where
  "to_number py x =
     (case x of
        Num v \<Rightarrow> (if isna v then NaN else v)
      | Str s0 \<Rightarrow>
          (let s = strip s0 in
           if s = [] then NaN
           else if last s = CHR ''%'' then
             (case float_of_str py (replace '','' [] (butlast s)) of
                None \<Rightarrow> NaN
              | Some v \<Rightarrow> fdiv v (Fin 100))
           else
             (case float_of_str py (replace '','' [] s) of
                None \<Rightarrow> NaN
              | Some v \<Rightarrow> v)))"

text \<open>
  \<^verbatim>\<open>np.nanmedian\<close>: the NaNs are dropped, the rest is sorted, and the median is the
  middle value or the mean of the two middle values. Infinities are values like any
  other here.
\<close>

fun finsert :: "pyfloat \<Rightarrow> pyfloat list \<Rightarrow> pyfloat list" where
  "finsert x [] = [x]"
| "finsert x (y # ys) = (if flt y x then y # finsert x ys else x # y # ys)"

definition fsort :: "pyfloat list \<Rightarrow> pyfloat list" where
  "fsort xs = foldr finsert xs []"

definition median_sorted :: "pyfloat list \<Rightarrow> pyfloat" where
  "median_sorted v =
     (let n = length v in
      if n = 0 then NaN
      else if odd n then v ! (n div 2)
      else fdiv (fadd (v ! (n div 2 - 1)) (v ! (n div 2))) (Fin 2))"

definition nanmedian :: "pyfloat list \<Rightarrow> pyfloat" where
  "nanmedian xs = median_sorted (fsort (filter (\<lambda>x. \<not> isna x) xs))"

text \<open>\<^verbatim>\<open>_coerce_percent\<close> (lines 117 to 124).\<close>

definition coerce_percent :: "'a builtins_scheme \<Rightarrow> cell list \<Rightarrow> pyfloat list" where
  "coerce_percent py series =
     (let s = map (to_number py) series;
          med = (if list_ex isfinite s then nanmedian s else NaN)
      in if \<not> isna med \<and> fgt med (Fin 1) then map (\<lambda>x. fdiv x (Fin 100)) s else s)"

subsection \<open>Disambiguating the two \<open>Delta\<close> headers\<close>

text \<open>Lines 160 to 169 of \<^verbatim>\<open>prep_df\<close>, on the list of column labels.\<close>

definition delta_idx :: "string list \<Rightarrow> nat list" where
  "delta_idx cols = map fst (filter (\<lambda>(i, c). c = ''Delta'') (enumerate 0 cols))"

definition rename_delta :: "string list \<Rightarrow> string list" where
  "rename_delta cols =
     (let d = delta_idx cols in
      if length d \<ge> 2 then (cols[d ! 0 := ''Delta (CR)''])[d ! 1 := ''Delta (CTR)'']
      else if length d = 1 then cols[d ! 0 := ''Delta (CR)'']
      else cols)"

subsection \<open>Data frames\<close>

text \<open>
  A frame has a row index (its length is \<open>nrows\<close>) and labelled columns in order; two
  columns may carry the same label, as the two \<open>Delta\<close> columns of some exports do.
  \<^verbatim>\<open>df[c]\<close> and \<^verbatim>\<open>df.get(c, ...)\<close> read the first column labelled \<open>c\<close>, and
  \<^verbatim>\<open>df[c] = v\<close> replaces it or appends a new last column. (pandas returns a
  sub-frame for a label that occurs twice; the pipeline is modelled for tables whose
  labels are unique once the \<open>Delta\<close> columns are renamed.)
\<close>

record frame =
  nrows :: nat
  columns :: "(string \<times> cell list) list"

definition has_col :: "frame \<Rightarrow> string \<Rightarrow> bool" where
  "has_col df c = (c \<in> set (map fst (columns df)))"

definition get_col :: "frame \<Rightarrow> string \<Rightarrow> cell list option" where
  "get_col df c = map_of (columns df) c"

definition set_col :: "frame \<Rightarrow> string \<Rightarrow> cell list \<Rightarrow> frame" where
  "set_col df c v = df\<lparr>columns := AList.update c v (columns df)\<rparr>"

text \<open>
  A column read for arithmetic. Every column the pipeline reads this way has been
  through \<^verbatim>\<open>_to_number\<close> or \<^verbatim>\<open>_coerce_percent\<close> first, or is one the
  pipeline computed, so all its cells are floats.
\<close>

fun as_float :: "cell \<Rightarrow> pyfloat" where
  "as_float (Num v) = v"
| "as_float (Str s) = NaN"

text \<open>\<^verbatim>\<open>df.get(c, np.nan)\<close> in an arithmetic context: an absent column is NaN in every row.\<close>

definition fcol :: "frame \<Rightarrow> string \<Rightarrow> pyfloat list" where
  "fcol df c =
     (case get_col df c of
        None \<Rightarrow> replicate (nrows df) NaN
      | Some col \<Rightarrow> map as_float col)"

definition set_fcol :: "frame \<Rightarrow> string \<Rightarrow> pyfloat list \<Rightarrow> frame" where
  "set_fcol df c v = set_col df c (map Num v)"

subsection \<open>The stages of \<^verbatim>\<open>prep_df\<close>\<close>

definition PCT_COLS_CANON :: "string list" where
  "PCT_COLS_CANON =
     [''Our Conversion Rate'', ''Market Conversion Rate'',
      ''Our Click Through Rate'', ''Market Click Through Rate'']"

definition NUM_COLS_CANON :: "string list" where
  "NUM_COLS_CANON =
     [''Impressions: ASIN Count'', ''Impressions: Total Count'',
      ''Clicks: ASIN Count'', ''Clicks: Total Count'',
      ''Cart Adds: ASIN Count'', ''Cart Adds: Total Count'',
      ''Purchases: ASIN Count'', ''Purchases: Total Count'']"

definition SHARE_COLS_CANON :: "string list" where
  "SHARE_COLS_CANON =
     [''Impressions - ASIN Share'', ''Clicks - ASIN Share'',
      ''Add to Cart - ASIN Share'', ''Purchases - ASIN Share'']"

definition FUNNEL_DELTA_COLS :: "string list" where
  "FUNNEL_DELTA_COLS =
     [''Delta - Impressions to Clicks'', ''Delta - Clicks to Add to Cart'',
      ''Delta - Add to Cart to Purchases'']"

text \<open>Lines 160 to 169: \<^verbatim>\<open>df.columns = cols\<close> relabels the columns by position.\<close>

definition rename_stage :: "frame \<Rightarrow> frame" where
  "rename_stage df =
     df\<lparr>columns := zip (rename_delta (map fst (columns df))) (map snd (columns df))\<rparr>"

text \<open>
  One turn of a coercion loop: \<^verbatim>\<open>if c in df.columns: df[c] = f(df[c])\<close>.
\<close>

definition coerce_col :: "(cell list \<Rightarrow> pyfloat list) \<Rightarrow> frame \<Rightarrow> string \<Rightarrow> frame" where
  "coerce_col f df c =
     (case get_col df c of
        None \<Rightarrow> df
      | Some col \<Rightarrow> set_fcol df c (f col))"

text \<open>Lines 172 to 186: the four coercion loops.\<close>

definition coerce_stage :: "'a builtins_scheme \<Rightarrow> frame \<Rightarrow> frame" where
  "coerce_stage py df0 =
     (let df = foldl (coerce_col (coerce_percent py)) df0
                 (PCT_COLS_CANON @ filter (has_col df0) [''Delta (CR)'', ''Delta (CTR)'']);
          df = foldl (coerce_col (coerce_percent py)) df SHARE_COLS_CANON;
          df = foldl (coerce_col (map (to_number py))) df NUM_COLS_CANON;
          df = foldl (coerce_col (coerce_percent py)) df FUNNEL_DELTA_COLS
      in df)"

text \<open>
  \<^verbatim>\<open>astype(str)\<close> on one cell: a string is itself and a float that is not missing
  is printed by \<^verbatim>\<open>str\<close>. A missing cell stays missing from pandas 3 on and
  becomes the string \<open>nan\<close> before.
\<close>

definition astype_str :: "'a builtins_scheme \<Rightarrow> cell \<Rightarrow> cell" where
  "astype_str py x =
     (case x of
        Str s \<Rightarrow> Str s
      | Num v \<Rightarrow>
          (if isna v then (if astype_str_keeps_na py then Num NaN else Str ''nan'')
           else Str (str_of_float py v)))"

text \<open>\<^verbatim>\<open>.str.strip()\<close> on one cell: a string is trimmed, a missing cell stays missing.\<close>

fun str_strip :: "cell \<Rightarrow> cell" where
  "str_strip (Str s) = Str (strip s)"
| "str_strip (Num v) = Num v"

text \<open>\<^verbatim>\<open>series[mask]\<close>: the entries where the mask is true.\<close>

definition select :: "bool list \<Rightarrow> 'a list \<Rightarrow> 'a list" where
  "select keep v = map snd (filter fst (zip keep v))"

text \<open>
  Lines 189 to 191. The guard is the source's: a table with no \<open>Keyword\<close> column passes
  through with all its rows. \<^verbatim>\<open>df[mask]\<close> builds a new frame. The two
  \<^verbatim>\<open>ne\<close> tests are true of a missing cell.
\<close>

definition strip_keyword :: "'a builtins_scheme \<Rightarrow> cell list \<Rightarrow> cell list" where
  "strip_keyword py col = map (\<lambda>x. str_strip (astype_str py x)) col"

definition keyword_mask :: "cell list \<Rightarrow> bool list" where
  "keyword_mask kw = map (\<lambda>k. k \<noteq> Str [] \<and> k \<noteq> Str ''nan'') kw"

definition take_rows :: "bool list \<Rightarrow> frame \<Rightarrow> frame" where
  "take_rows keep df =
     \<lparr>nrows = length (filter id keep),
      columns = map (\<lambda>(c, v). (c, select keep v)) (columns df)\<rparr>"

definition strip_keyword_stage :: "'a builtins_scheme \<Rightarrow> frame \<Rightarrow> frame" where
  "strip_keyword_stage py df =
     (case get_col df ''Keyword'' of
        None \<Rightarrow> df
      | Some col \<Rightarrow> set_col df ''Keyword'' (strip_keyword py col))"

definition filter_keyword :: "frame \<Rightarrow> frame" where
  "filter_keyword df =
     (case get_col df ''Keyword'' of
        None \<Rightarrow> df
      | Some col \<Rightarrow> take_rows (keyword_mask col) df)"

definition keyword_stage :: "'a builtins_scheme \<Rightarrow> frame \<Rightarrow> frame" where
  "keyword_stage py df =
     (if has_col df ''Keyword'' then filter_keyword (strip_keyword_stage py df) else df)"

text \<open>Lines 194 to 196.\<close>

definition market_demand_stage :: "frame \<Rightarrow> frame" where
  "market_demand_stage df0 =
     (let df = set_fcol df0 ''Market_Demand'' (fcol df0 ''Impressions: Total Count'')
      in if list_all isna (fcol df ''Market_Demand'')
         then set_fcol df ''Market_Demand'' (fcol df ''Clicks: Total Count'')
         else df)"

text \<open>Lines 199 to 202: the four gaps, row by row.\<close>

definition vsub :: "pyfloat list \<Rightarrow> pyfloat list \<Rightarrow> pyfloat list" where
  "vsub a b = map (\<lambda>(x, y). fsub x y) (zip a b)"

definition gap_stage :: "frame \<Rightarrow> frame" where
  "gap_stage df0 =
     (let df = set_fcol df0 ''ClickGap''
                 (vsub (fcol df0 ''Market Click Through Rate'') (fcol df0 ''Our Click Through Rate''));
          df = set_fcol df ''ConvGap''
                 (vsub (fcol df ''Market Conversion Rate'') (fcol df ''Our Conversion Rate''));
          df = set_fcol df ''ShareGap_Clicks''
                 (vsub (fcol df ''Clicks - ASIN Share'') (fcol df ''Impressions - ASIN Share''));
          df = set_fcol df ''ShareGap_Purchases''
                 (vsub (fcol df ''Purchases - ASIN Share'') (fcol df ''Clicks - ASIN Share''))
      in df)"

text \<open>
  Lines 205 to 208. \<^verbatim>\<open>Series.max()\<close> skips NaN and is NaN on a series with nothing
  else; \<^verbatim>\<open>NaN > 0\<close> is false.
\<close>

definition fillna0 :: "pyfloat \<Rightarrow> pyfloat" where
  "fillna0 x = (if isna x then Fin 0 else x)"

definition clip_lower0 :: "pyfloat \<Rightarrow> pyfloat" where
  "clip_lower0 x = (if flt x (Fin 0) then Fin 0 else x)"

definition series_max :: "pyfloat list \<Rightarrow> pyfloat" where
  "series_max xs =
     (case filter (\<lambda>x. \<not> isna x) xs of
        [] \<Rightarrow> NaN
      | y # ys \<Rightarrow> foldl (\<lambda>a b. if flt a b then b else a) y ys)"

definition demand_score :: "pyfloat list \<Rightarrow> pyfloat list" where
  "demand_score market_demand =
     (let d = map (\<lambda>x. clip_lower0 (fillna0 x)) market_demand;
          score = map log1p d;
          m = series_max score
      in if fgt m (Fin 0) then map (\<lambda>x. fdiv x m) score else score)"

definition demand_score_stage :: "frame \<Rightarrow> frame" where
  "demand_score_stage df = set_fcol df ''DemandScore'' (demand_score (fcol df ''Market_Demand''))"

text \<open>
  Lines 211 to 219. \<^verbatim>\<open>pos\<close> is \<^verbatim>\<open>np.where(pd.isna(x), 0, np.maximum(x, 0))\<close>;
  the sum is taken from the left, as Python evaluates it, and the last line fills a NaN
  score with \<open>0\<close>.
\<close>

definition pos :: "pyfloat \<Rightarrow> pyfloat" where
  "pos x = (if isna x then Fin 0 else fmaximum x (Fin 0))"

definition weighted_sum :: "pyfloat \<Rightarrow> pyfloat \<Rightarrow> pyfloat \<Rightarrow> pyfloat \<Rightarrow> pyfloat" where
  "weighted_sum ds cg cv sp =
     fadd (fadd (fadd (fmul (Fin 0.55) ds) (fmul (Fin 0.20) (pos cg)))
                (fmul (Fin 0.15) (pos cv)))
          (fmul (Fin 0.10) (pos sp))"

definition opportunity_stage :: "frame \<Rightarrow> frame" where
  "opportunity_stage df0 =
     (let df = set_fcol df0 ''OpportunityScore''
                 (map (\<lambda>(ds, cg, cv, sp). weighted_sum ds cg cv sp)
                    (zip (fcol df0 ''DemandScore'')
                      (zip (fcol df0 ''ClickGap'')
                        (zip (fcol df0 ''ConvGap'') (fcol df0 ''ShareGap_Purchases'')))))
      in set_fcol df ''OpportunityScore'' (map fillna0 (fcol df ''OpportunityScore'')))"

text \<open>
  Lines 222 to 234. Each rule is a boolean mask over the rows, and
  \<^verbatim>\<open>df.loc[mask, "Bucket"] = label\<close> overwrites the rows where the mask is true.
\<close>

definition rule2 :: "pyfloat \<Rightarrow> pyfloat \<Rightarrow> pyfloat \<Rightarrow> bool" where
  "rule2 ds imp clk = (fgt ds (Fin 0.55) \<and> fgt imp (Fin 0) \<and> flt clk (fmul imp (Fin 0.85)))"

definition rule3 :: "pyfloat \<Rightarrow> pyfloat \<Rightarrow> pyfloat \<Rightarrow> bool" where
  "rule3 ds clk pur = (fgt ds (Fin 0.35) \<and> fgt clk (Fin 0) \<and> flt pur (fmul clk (Fin 0.75)))"

definition rule4 :: "pyfloat \<Rightarrow> pyfloat \<Rightarrow> pyfloat \<Rightarrow> pyfloat \<Rightarrow> bool" where
  "rule4 ds imp clk pur =
     (fgt ds (Fin 0.35) \<and> fge pur (fmul clk (Fin 0.95)) \<and> flt imp (Fin 0.06))"

definition rule5 :: "pyfloat \<Rightarrow> pyfloat \<Rightarrow> bool" where
  "rule5 imp pur = (fge imp (Fin 0.08) \<and> fge pur (Fin 0.06))"

definition loc_assign :: "bool list \<Rightarrow> string \<Rightarrow> cell list \<Rightarrow> cell list" where
  "loc_assign keep label col = map (\<lambda>(m, b). if m then Str label else b) (zip keep col)"

definition modify_col :: "frame \<Rightarrow> string \<Rightarrow> (cell list \<Rightarrow> cell list) \<Rightarrow> frame" where
  "modify_col df c f =
     (case get_col df c of
        None \<Rightarrow> df
      | Some col \<Rightarrow> set_col df c (f col))"

definition bucket_stage :: "frame \<Rightarrow> frame" where
  "bucket_stage df0 =
     (let imp_share = fcol df0 ''Impressions - ASIN Share'';
          clk_share = fcol df0 ''Clicks - ASIN Share'';
          pur_share = fcol df0 ''Purchases - ASIN Share'';
          df = set_col df0 ''Bucket'' (replicate (nrows df0) (Str ''Ignore / Low Signal''));
          df = modify_col df ''Bucket''
                 (loc_assign
                    (map (\<lambda>(ds, imp, clk). rule2 ds imp clk)
                       (zip (fcol df ''DemandScore'') (zip imp_share clk_share)))
                    ''Ranking Opportunity'');
          df = modify_col df ''Bucket''
                 (loc_assign
                    (map (\<lambda>(ds, clk, pur). rule3 ds clk pur)
                       (zip (fcol df ''DemandScore'') (zip clk_share pur_share)))
                    ''Conversion Problem'');
          df = modify_col df ''Bucket''
                 (loc_assign
                    (map (\<lambda>(ds, imp, clk, pur). rule4 ds imp clk pur)
                       (zip (fcol df ''DemandScore'') (zip imp_share (zip clk_share pur_share))))
                    ''PPC Scaling Opportunity'');
          df = modify_col df ''Bucket''
                 (loc_assign
                    (map (\<lambda>(imp, pur). rule5 imp pur) (zip imp_share pur_share))
                    ''Defend Position'')
      in df)"

text \<open>Lines 237 to 248: the action text of a row is looked up from its bucket.\<close>

definition action :: "cell \<Rightarrow> string" where
  "action b =
     (if b = Str ''Ranking Opportunity'' then
        ''Launch/expand Exact + POE rank; validate relevance; tighten top-of-search placements; add to PLO (title/bullets/back-end) if truly core.''
      else if b = Str ''Conversion Problem'' then
        ''Fix listing first (main image/value props/price/reviews); then isolate query in Exact to measure; avoid brute-force spend.''
      else if b = Str ''PPC Scaling Opportunity'' then
        ''Scale PPC deliberately: raise bids/budgets where CPS holds; broaden match types; add defense targets; watch TACoS.''
      else if b = Str ''Defend Position'' then
        ''Defend: maintain Exact + defense; cap waste; monitor share drops weekly.''
      else ''Ignore for now, or investigate relevance if it keeps appearing.'')"

definition action_stage :: "frame \<Rightarrow> frame" where
  "action_stage df =
     (case get_col df ''Bucket'' of
        None \<Rightarrow> df
      | Some b \<Rightarrow> set_col df ''Suggested Action'' (map (\<lambda>x. Str (action x)) b))"

subsection \<open>The pipeline as a function of the table\<close>

text \<open>The stages after the row filter (lines 194 to 248).\<close>

definition derive :: "frame \<Rightarrow> frame" where
  "derive df =
     action_stage (bucket_stage (opportunity_stage (demand_score_stage
       (gap_stage (market_demand_stage df)))))"

definition prep_df :: "'a builtins_scheme \<Rightarrow> frame \<Rightarrow> frame" where
  "prep_df py df = derive (keyword_stage py (coerce_stage py (rename_stage df)))"

subsection \<open>The pipeline on a store of frames\<close>

text \<open>
  The source rebinds and mutates: \<^verbatim>\<open>df = df.copy()\<close> makes a new frame,
  \<^verbatim>\<open>df[c] = ...\<close>, \<^verbatim>\<open>df.columns = ...\<close> and \<^verbatim>\<open>df.loc[...] = ...\<close> change the
  frame \<open>df\<close> refers to, and \<^verbatim>\<open>df = df[mask]\<close> makes a new frame again. A store is
  the list of the frames that exist, a reference is an index into it.
\<close>

type_synonym store = "frame list"

definition new_frame :: "frame \<Rightarrow> store \<Rightarrow> nat \<times> store" where
  "new_frame df h = (length h, h @ [df])"

definition in_place :: "nat \<Rightarrow> (frame \<Rightarrow> frame) \<Rightarrow> store \<Rightarrow> store" where
  "in_place r f h = h[r := f (h ! r)]"

definition prep_df_store :: "'a builtins_scheme \<Rightarrow> nat \<Rightarrow> store \<Rightarrow> nat \<times> store" where
  "prep_df_store py raw h0 =
     (let (df, h) = new_frame (h0 ! raw) h0;
          h = in_place df rename_stage h;
          h = in_place df (coerce_stage py) h;
          (df, h) =
            (if has_col (h ! df) ''Keyword''
             then (let h = in_place df (strip_keyword_stage py) h
                   in new_frame (filter_keyword (h ! df)) h)
             else (df, h));
          h = in_place df market_demand_stage h;
          h = in_place df gap_stage h;
          h = in_place df demand_score_stage h;
          h = in_place df opportunity_stage h;
          h = in_place df bucket_stage h;
          h = in_place df action_stage h
      in (df, h))"

subsection \<open>The caller's guard\<close>

text \<open>
  Lines 281 to 287. \<^verbatim>\<open>df_raw\<close> is \<^verbatim>\<open>None\<close> when nothing was loaded;
  \<^verbatim>\<open>df_raw.empty\<close> holds of a frame with no row or no column. The page either stops
  at the upload prompt or goes on to render what \<^verbatim>\<open>prep_df\<close> returned.
\<close>

datatype page = Upload_Prompt | Rendered frame

definition frame_empty :: "frame \<Rightarrow> bool" where
  "frame_empty df = (nrows df = 0 \<or> columns df = [])"

definition app :: "'a builtins_scheme \<Rightarrow> frame option \<Rightarrow> page" where
  "app py df_raw =
     (case df_raw of
        None \<Rightarrow> Upload_Prompt
      | Some df \<Rightarrow> if frame_empty df then Upload_Prompt else Rendered (prep_df py df))"

subsection \<open>Well-formed frames and example tables\<close>

text \<open>Every column of a frame has one cell per row.\<close>

definition wf_frame :: "frame \<Rightarrow> bool" where
  "wf_frame df = list_all (\<lambda>(c, v). length v = nrows df) (columns df)"

text \<open>
  One row of the cascade of lines 226 to 234, read from the last rule back to the first:
  the label a row carries after the four overwrites.
\<close>

definition cascade :: "pyfloat \<Rightarrow> pyfloat \<Rightarrow> pyfloat \<Rightarrow> pyfloat \<Rightarrow> cell" where
  "cascade ds imp clk pur = Str
     (if rule5 imp pur then ''Defend Position''
      else if rule4 ds imp clk pur then ''PPC Scaling Opportunity''
      else if rule3 ds clk pur then ''Conversion Problem''
      else if rule2 ds imp clk then ''Ranking Opportunity''
      else ''Ignore / Low Signal'')"

text \<open>
  Builtins for tables whose numeric cells are already floats: no string parses as a
  number, and every float prints as \<open>0.0\<close>; \<^verbatim>\<open>astype(str)\<close> as in pandas 3.
\<close>

definition plain_builtins :: builtins where
  "plain_builtins =
     \<lparr>float_of_str = (\<lambda>s. None), str_of_float = (\<lambda>v. ''0.0''), astype_str_keeps_na = True\<rparr>"

text \<open>
  A table of two queries. The keyword of the second is blank. The first satisfies
  rule 2 and rule 4 at once.
\<close>

definition demo_frame :: frame where
  "demo_frame = \<lparr>nrows = 2, columns =
     [(''Keyword'', [Str '' foo '', Str ''  '']),
      (''Impressions: Total Count'', [Num (Fin 999), Num (Fin 5)]),
      (''Our Click Through Rate'', [Num (Fin 0.02), Num NaN]),
      (''Market Click Through Rate'', [Num (Fin 0.05), Num NaN]),
      (''Impressions - ASIN Share'', [Num (Fin 0.05), Num (Fin 0.5)]),
      (''Clicks - ASIN Share'', [Num (Fin 0.02), Num (Fin 0.5)]),
      (''Purchases - ASIN Share'', [Num (Fin 0.03), Num (Fin 0.5)])]\<rparr>"

text \<open>What the pipeline makes of it (lemma \<open>prep_df_demo\<close> below).\<close>

definition demo_out :: frame where
  "demo_out = \<lparr>nrows = 1, columns =
     [(''Keyword'', [Str ''foo'']),
      (''Impressions: Total Count'', [Num (Fin 999)]),
      (''Our Click Through Rate'', [Num (Fin 0.02)]),
      (''Market Click Through Rate'', [Num (Fin 0.05)]),
      (''Impressions - ASIN Share'', [Num (Fin 0.05)]),
      (''Clicks - ASIN Share'', [Num (Fin 0.02)]),
      (''Purchases - ASIN Share'', [Num (Fin 0.03)]),
      (''Market_Demand'', [Num (Fin 999)]),
      (''ClickGap'', [Num (Fin 0.03)]),
      (''ConvGap'', [Num NaN]),
      (''ShareGap_Clicks'', [Num (Fin (- 0.03))]),
      (''ShareGap_Purchases'', [Num (Fin 0.01)]),
      (''DemandScore'', [Num (Fin 1)]),
      (''OpportunityScore'', [Num (Fin 0.557)]),
      (''Bucket'', [Str ''PPC Scaling Opportunity'']),
      (''Suggested Action'',
       [Str ''Scale PPC deliberately: raise bids/budgets where CPS holds; broaden match types; add defense targets; watch TACoS.''])]\<rparr>"

text \<open>A table with no \<open>Keyword\<close> column whose one demand cell is infinite.\<close>

definition inf_frame :: frame where
  "inf_frame = \<lparr>nrows = 1, columns = [(''Impressions: Total Count'', [Num PInf])]\<rparr>"

text \<open>What the pipeline makes of it (lemma \<open>prep_df_inf\<close> below).\<close>

definition inf_out :: frame where
  "inf_out = \<lparr>nrows = 1, columns =
     [(''Impressions: Total Count'', [Num PInf]),
      (''Market_Demand'', [Num PInf]),
      (''ClickGap'', [Num NaN]),
      (''ConvGap'', [Num NaN]),
      (''ShareGap_Clicks'', [Num NaN]),
      (''ShareGap_Purchases'', [Num NaN]),
      (''DemandScore'', [Num NaN]),
      (''OpportunityScore'', [Num (Fin 0)]),
      (''Bucket'', [Str ''Ignore / Low Signal'']),
      (''Suggested Action'',
       [Str ''Ignore for now, or investigate relevance if it keeps appearing.''])]\<rparr>"

text \<open>A table none of whose keywords is usable.\<close>

definition junk_frame :: frame where
  "junk_frame = \<lparr>nrows = 2, columns =
     [(''Keyword'', [Str ''nan'', Str ''  '']),
      (''Clicks: Total Count'', [Num (Fin 7), Num (Fin 3)])]\<rparr>"

text \<open>What the pipeline makes of it (lemma \<open>prep_df_junk\<close> below).\<close>

definition junk_out :: frame where
  "junk_out = \<lparr>nrows = 0, columns =
     [(''Keyword'', []), (''Clicks: Total Count'', []), (''Market_Demand'', []),
      (''ClickGap'', []), (''ConvGap'', []), (''ShareGap_Clicks'', []),
      (''ShareGap_Purchases'', []), (''DemandScore'', []), (''OpportunityScore'', []),
      (''Bucket'', []), (''Suggested Action'', [])]\<rparr>"

text \<open>
  The demand a row's score is computed from, as a real number: a missing or negative
  demand counts as \<open>0\<close>. (Plus infinity is not covered by this reading.)
\<close>

fun dreal :: "pyfloat \<Rightarrow> real" where
  "dreal (Fin r) = max r 0"
| "dreal _ = 0"

text \<open>
  The percent rule in the words of the specification (section 4.4), kept apart from
  the code's \<open>coerce_percent\<close> to be compared with it: the median is taken over the
  finite coerced values; a column with none is left as it is.
\<close>

definition coerce_percent_spec :: "'a builtins_scheme \<Rightarrow> cell list \<Rightarrow> pyfloat list" where
  "coerce_percent_spec py series =
     (let s = map (to_number py) series;
          finite_values = filter isfinite s
      in if finite_values = [] then s
         else if fgt (median_sorted (fsort finite_values)) (Fin 1)
              then map (\<lambda>x. fdiv x (Fin 100)) s
              else s)"

section \<open>Properties\<close>

subsection \<open>Evaluating the pipeline on a concrete table\<close>

lemmas eval_defs =
  prep_df_def derive_def
  rename_stage_def rename_delta_def coerce_stage_def
  keyword_stage_def market_demand_stage_def gap_stage_def demand_score_stage_def demand_score_def
  opportunity_stage_def bucket_stage_def coerce_percent_def median_sorted_def
  PCT_COLS_CANON_def NUM_COLS_CANON_def SHARE_COLS_CANON_def FUNNEL_DELTA_COLS_def
  delta_idx_def coerce_col_def to_number_def nanmedian_def fsort_def
  strip_keyword_stage_def strip_keyword_def filter_keyword_def keyword_mask_def
  take_rows_def select_def astype_str_def strip_def is_space_def vsub_def
  fillna0_def clip_lower0_def series_max_def weighted_sum_def pos_def
  rule2_def rule3_def rule4_def rule5_def loc_assign_def modify_col_def
  action_stage_def action_def has_col_def get_col_def set_col_def set_fcol_def fcol_def
  fgt_def fge_def fle_def fsub_def fmaximum_def inf_of_sign_def
  wf_frame_def Let_def

lemma prep_df_demo: "prep_df plain_builtins demo_frame = demo_out"
  by (simp add: eval_defs plain_builtins_def demo_frame_def demo_out_def
      split del: if_split cong: let_weak_cong)

lemma prep_df_inf: "prep_df plain_builtins inf_frame = inf_out"
  by (simp add: eval_defs plain_builtins_def inf_frame_def inf_out_def
      split del: if_split cong: let_weak_cong)

lemma prep_df_junk: "prep_df plain_builtins junk_frame = junk_out"
  by (simp add: eval_defs plain_builtins_def junk_frame_def junk_out_def
      split del: if_split cong: let_weak_cong)

subsection \<open>Reading and writing columns\<close>


lemma get_set_same [simp]: "get_col (set_col df c v) c = Some v"
  by (simp add: get_col_def set_col_def update_conv')

lemma get_set_other [simp]: "c' \<noteq> c \<Longrightarrow> get_col (set_col df c v) c' = get_col df c'"
  by (simp add: get_col_def set_col_def update_conv')

lemma nrows_set_col [simp]: "nrows (set_col df c v) = nrows df"
  by (simp add: set_col_def)

lemma fcol_set_other [simp]: "c' \<noteq> c \<Longrightarrow> fcol (set_col df c v) c' = fcol df c'"
  by (simp add: fcol_def split: option.splits)

lemma as_float_o_Num [simp]: "as_float \<circ> Num = id"
  by (rule ext) simp

lemma as_float_Num [simp]: "map as_float (map Num v) = v"
  by simp

lemma fcol_set_fcol_same [simp]: "fcol (set_fcol df c v) c = v"
  by (simp add: fcol_def set_fcol_def)

lemma fcol_set_fcol_other [simp]: "c' \<noteq> c \<Longrightarrow> fcol (set_fcol df c v) c' = fcol df c'"
  by (simp add: set_fcol_def)

lemma get_set_fcol_other [simp]: "c' \<noteq> c \<Longrightarrow> get_col (set_fcol df c v) c' = get_col df c'"
  by (simp add: set_fcol_def)

lemma nrows_set_fcol [simp]: "nrows (set_fcol df c v) = nrows df"
  by (simp add: set_fcol_def)

lemma modify_set [simp]: "modify_col (set_col df c v) c f = set_col (set_col df c v) c (f v)"
  by (simp add: modify_col_def)

lemma set_set [simp]: "set_col (set_col df c v) c w = set_col df c w"
  by (simp add: set_col_def)

lemma wf_get_col: "wf_frame df \<Longrightarrow> get_col df c = Some v \<Longrightarrow> length v = nrows df"
  unfolding wf_frame_def get_col_def list_all_iff
  by (auto dest: map_of_SomeD)

lemma length_fcol: "wf_frame df \<Longrightarrow> length (fcol df c) = nrows df"
  by (auto simp: fcol_def dest: wf_get_col split: option.splits)

lemma wf_set_col: "wf_frame df \<Longrightarrow> length v = nrows df \<Longrightarrow> wf_frame (set_col df c v)"
proof -
  assume a: "wf_frame df" "length v = nrows df"
  have "set (AList.update c v al) \<subseteq> insert (c, v) (set al)" for al
    by (induction al) auto
  then have "set (AList.update c v (columns df)) \<subseteq> insert (c, v) (set (columns df))" .
  with a show ?thesis
    unfolding wf_frame_def list_all_iff set_col_def by auto
qed

lemma wf_set_fcol: "wf_frame df \<Longrightarrow> length v = nrows df \<Longrightarrow> wf_frame (set_fcol df c v)"
  by (simp add: set_fcol_def wf_set_col)

subsection \<open>What each stage reads and writes\<close>

lemma bucket_stage_col:
  "get_col (bucket_stage df) ''Bucket'' = Some
     (let ds = fcol df ''DemandScore''; imp = fcol df ''Impressions - ASIN Share'';
          clk = fcol df ''Clicks - ASIN Share''; pur = fcol df ''Purchases - ASIN Share''
      in loc_assign (map (\<lambda>(imp, pur). rule5 imp pur) (zip imp pur)) ''Defend Position''
          (loc_assign (map (\<lambda>(ds, imp, clk, pur). rule4 ds imp clk pur) (zip ds (zip imp (zip clk pur)))) ''PPC Scaling Opportunity''
            (loc_assign (map (\<lambda>(ds, clk, pur). rule3 ds clk pur) (zip ds (zip clk pur))) ''Conversion Problem''
              (loc_assign (map (\<lambda>(ds, imp, clk). rule2 ds imp clk) (zip ds (zip imp clk))) ''Ranking Opportunity''
                 (replicate (nrows df) (Str ''Ignore / Low Signal''))))))"
  by (simp add: bucket_stage_def Let_def)

lemma bucket_stage_nth:
  assumes "wf_frame df" "i < nrows df"
  shows "\<exists>col. get_col (bucket_stage df) ''Bucket'' = Some col \<and> length col = nrows df \<and>
           col ! i = cascade (fcol df ''DemandScore'' ! i) (fcol df ''Impressions - ASIN Share'' ! i)
                       (fcol df ''Clicks - ASIN Share'' ! i) (fcol df ''Purchases - ASIN Share'' ! i)"
  using assms
  by (simp add: bucket_stage_col Let_def loc_assign_def length_fcol cascade_def)



lemma bucket_stage_set:
  "\<exists>col. bucket_stage df = set_col df ''Bucket'' col \<and>
         (wf_frame df \<longrightarrow> length col = nrows df)"
  unfolding bucket_stage_def Let_def
  apply simp
  apply (rule exI, rule conjI, rule refl)
  apply (simp add: loc_assign_def length_fcol)
  done

lemma bucket_stage_frame:
  "nrows (bucket_stage df) = nrows df"
  "c \<noteq> ''Bucket'' \<Longrightarrow> get_col (bucket_stage df) c = get_col df c"
  "c \<noteq> ''Bucket'' \<Longrightarrow> fcol (bucket_stage df) c = fcol df c"
  "wf_frame df \<Longrightarrow> wf_frame (bucket_stage df)"
  using bucket_stage_set [of df] by (auto simp: wf_set_col)

lemma action_stage_frame:
  "nrows (action_stage df) = nrows df"
  "c \<noteq> ''Suggested Action'' \<Longrightarrow> get_col (action_stage df) c = get_col df c"
  "c \<noteq> ''Suggested Action'' \<Longrightarrow> fcol (action_stage df) c = fcol df c"
  "wf_frame df \<Longrightarrow> wf_frame (action_stage df)"
  by (auto simp: action_stage_def intro!: wf_set_col dest: wf_get_col split: option.splits)

lemma opportunity_stage_frame:
  "nrows (opportunity_stage df) = nrows df"
  "c \<noteq> ''OpportunityScore'' \<Longrightarrow> get_col (opportunity_stage df) c = get_col df c"
  "c \<noteq> ''OpportunityScore'' \<Longrightarrow> fcol (opportunity_stage df) c = fcol df c"
  "wf_frame df \<Longrightarrow> wf_frame (opportunity_stage df)"
  by (auto simp: opportunity_stage_def Let_def wf_set_fcol length_fcol)

lemma opportunity_stage_col:
  "fcol (opportunity_stage df) ''OpportunityScore'' =
     map (\<lambda>(ds, cg, cv, sp). fillna0 (weighted_sum ds cg cv sp))
       (zip (fcol df ''DemandScore'') (zip (fcol df ''ClickGap'')
          (zip (fcol df ''ConvGap'') (fcol df ''ShareGap_Purchases''))))"
  by (simp add: opportunity_stage_def Let_def set_fcol_def fcol_def split_def comp_def)

lemma length_demand_score [simp]: "length (demand_score xs) = length xs"
  by (simp add: demand_score_def Let_def)

lemma demand_score_stage_frame:
  "nrows (demand_score_stage df) = nrows df"
  "c \<noteq> ''DemandScore'' \<Longrightarrow> get_col (demand_score_stage df) c = get_col df c"
  "c \<noteq> ''DemandScore'' \<Longrightarrow> fcol (demand_score_stage df) c = fcol df c"
  "wf_frame df \<Longrightarrow> wf_frame (demand_score_stage df)"
  by (auto simp: demand_score_stage_def wf_set_fcol length_fcol)

lemma length_vsub [simp]: "length (vsub a b) = min (length a) (length b)"
  by (simp add: vsub_def)

lemma gap_stage_frame:
  "nrows (gap_stage df) = nrows df"
  "wf_frame df \<Longrightarrow> wf_frame (gap_stage df)"
  by (auto simp: gap_stage_def Let_def wf_set_fcol length_fcol)

lemma gap_stage_other:
  "c \<notin> {''ClickGap'', ''ConvGap'', ''ShareGap_Clicks'', ''ShareGap_Purchases''} \<Longrightarrow>
     get_col (gap_stage df) c = get_col df c"
  "c \<notin> {''ClickGap'', ''ConvGap'', ''ShareGap_Clicks'', ''ShareGap_Purchases''} \<Longrightarrow>
     fcol (gap_stage df) c = fcol df c"
  by (auto simp: gap_stage_def Let_def)

lemma market_demand_stage_frame:
  "nrows (market_demand_stage df) = nrows df"
  "c \<noteq> ''Market_Demand'' \<Longrightarrow> get_col (market_demand_stage df) c = get_col df c"
  "c \<noteq> ''Market_Demand'' \<Longrightarrow> fcol (market_demand_stage df) c = fcol df c"
  "wf_frame df \<Longrightarrow> wf_frame (market_demand_stage df)"
  by (auto simp: market_demand_stage_def Let_def wf_set_fcol length_fcol)

lemma derive_frame:
  "nrows (derive df) = nrows df"
  "wf_frame df \<Longrightarrow> wf_frame (derive df)"
  by (simp_all add: derive_def action_stage_frame bucket_stage_frame opportunity_stage_frame
      demand_score_stage_frame gap_stage_frame market_demand_stage_frame)


subsection \<open>Well-formedness is kept by every stage\<close>

lemma length_rename_delta [simp]: "length (rename_delta cols) = length cols"
  by (simp add: rename_delta_def Let_def)

lemma rename_stage_frame:
  "nrows (rename_stage df) = nrows df"
  "wf_frame df \<Longrightarrow> wf_frame (rename_stage df)"
  unfolding rename_stage_def wf_frame_def list_all_iff
  by (fastforce dest!: set_zip_rightD)+

lemma length_coerce_percent [simp]: "length (coerce_percent py col) = length col"
  by (simp add: coerce_percent_def Let_def)

lemma coerce_col_frame:
  "nrows (coerce_col f df c) = nrows df"
  "(\<And>col. length (f col) = length col) \<Longrightarrow> wf_frame df \<Longrightarrow> wf_frame (coerce_col f df c)"
  by (auto simp: coerce_col_def intro!: wf_set_fcol dest: wf_get_col split: option.splits)

lemma foldl_coerce_col_frame:
  "nrows (foldl (coerce_col f) df cs) = nrows df"
  "(\<And>col. length (f col) = length col) \<Longrightarrow> wf_frame df \<Longrightarrow> wf_frame (foldl (coerce_col f) df cs)"
  by (induction cs arbitrary: df) (simp_all add: coerce_col_frame)

lemma coerce_stage_frame:
  "nrows (coerce_stage py df) = nrows df"
  "wf_frame df \<Longrightarrow> wf_frame (coerce_stage py df)"
  by (simp_all add: coerce_stage_def Let_def foldl_coerce_col_frame)

lemma length_select:
  "length keep = length v \<Longrightarrow> length (select keep v) = length (filter id keep)"
  unfolding select_def
  by (induction keep v rule: list_induct2) auto

lemma wf_take_rows:
  "wf_frame df \<Longrightarrow> length keep = nrows df \<Longrightarrow> wf_frame (take_rows keep df)"
  unfolding wf_frame_def list_all_iff take_rows_def
  by (auto simp: length_select)

lemma wf_strip_keyword_stage:
  "wf_frame df \<Longrightarrow> wf_frame (strip_keyword_stage py df)"
  by (auto simp: strip_keyword_stage_def strip_keyword_def intro!: wf_set_col dest: wf_get_col
      split: option.splits)

lemma wf_filter_keyword:
  "wf_frame df \<Longrightarrow> wf_frame (filter_keyword df)"
  by (auto simp: filter_keyword_def keyword_mask_def intro!: wf_take_rows dest: wf_get_col
      split: option.splits)

lemma wf_keyword_stage:
  "wf_frame df \<Longrightarrow> wf_frame (keyword_stage py df)"
  by (simp add: keyword_stage_def wf_filter_keyword wf_strip_keyword_stage)

lemma wf_prep_df: "wf_frame df \<Longrightarrow> wf_frame (prep_df py df)"
  by (simp add: prep_df_def derive_frame wf_keyword_stage coerce_stage_frame rename_stage_frame)


subsection \<open>The stages in order, and the rules on missing values\<close>

lemma prep_df_unfold:
  "prep_df py df = action_stage (bucket_stage (opportunity_stage (demand_score_stage
       (gap_stage (market_demand_stage (keyword_stage py (coerce_stage py (rename_stage df))))))))"
  by (simp add: prep_df_def derive_def)

lemma rule_nan:
  "(isna imp \<or> isna clk \<longrightarrow> \<not> rule2 ds imp clk)"
  "(isna clk \<or> isna pur \<longrightarrow> \<not> rule3 ds clk pur)"
  "(isna imp \<or> isna clk \<or> isna pur \<longrightarrow> \<not> rule4 ds imp clk pur)"
  "(isna imp \<or> isna pur \<longrightarrow> \<not> rule5 imp pur)"
  by (cases imp; cases clk; cases pur; simp add: rule2_def rule3_def rule4_def rule5_def fgt_def fge_def)+

lemma rule4_not_rule5: "rule4 ds imp clk pur \<Longrightarrow> \<not> rule5 imp pur"
  by (cases imp) (auto simp: rule4_def rule5_def fge_def)

subsection \<open>The header cleaner\<close>

lemma clean_col_None: "clean_col None = Inr []"
  by (simp add: clean_col_def)

lemma clean_col_Some: "clean_col (Some c) = Inl (NameError ''re'')"
  by (simp add: clean_col_def module_names_def Let_def)

lemma clean_cols_raises: "Some c \<in> set cs \<Longrightarrow> clean_cols cs = Inl (NameError ''re'')"
proof (induction cs)
  case Nil
  then show ?case by simp
next
  case (Cons h cs)
  show ?case
  proof (cases h)
    case None
    with Cons show ?thesis by (simp add: clean_col_None)
  next
    case (Some a)
    then show ?thesis by (simp add: clean_col_Some)
  qed
qed

text \<open>
  Claim C7 says the column normalizer trims a header, collapses its whitespace and
  never raises. The module never imports \<^verbatim>\<open>re\<close>, so line 84 raises
  \<^verbatim>\<open>NameError\<close> for every header that is a string; only \<^verbatim>\<open>None\<close> is
  mapped (to the empty string). Here the header \<open>Keyword\<close>.
\<close>

theorem clean_col_raises_NameError:
  "clean_col (Some ''Keyword'') = Inl (NameError ''re'')"
  by (simp add: clean_col_def module_names_def Let_def)

subsection \<open>Disambiguating \<open>Delta\<close>\<close>

lemma idx_none:
  "d \<notin> set a \<Longrightarrow> filter (\<lambda>(i, c). c = d) (enumerate n a) = []"
  by (induction a arbitrary: n) auto

lemma delta_idx_none: "''Delta'' \<notin> set cols \<Longrightarrow> delta_idx cols = []"
  by (simp add: delta_idx_def idx_none)

lemma delta_idx_first:
  assumes "''Delta'' \<notin> set a"
  shows "delta_idx (a @ ''Delta'' # r) =
           length a # map fst (filter (\<lambda>(i, c). c = ''Delta'') (enumerate (Suc (length a)) r))"
  using assms by (simp add: delta_idx_def enumerate_append_eq idx_none)

lemma idx_first_from:
  assumes "d \<notin> set b"
  shows "map fst (filter (\<lambda>(i, c). c = d) (enumerate n (b @ d # r))) =
           (n + length b) # map fst (filter (\<lambda>(i, c). c = d) (enumerate (Suc (n + length b)) r))"
  using assms by (simp add: enumerate_append_eq idx_none)

lemma rename_delta_zero: "''Delta'' \<notin> set cols \<Longrightarrow> rename_delta cols = cols"
  by (simp add: rename_delta_def delta_idx_none)

lemma rename_delta_one:
  assumes "''Delta'' \<notin> set a" "''Delta'' \<notin> set b"
  shows "rename_delta (a @ ''Delta'' # b) = a @ ''Delta (CR)'' # b"
  using assms by (simp add: rename_delta_def delta_idx_first idx_none)

lemma rename_delta_two:
  assumes "''Delta'' \<notin> set a" "''Delta'' \<notin> set b"
  shows "rename_delta (a @ ''Delta'' # b @ ''Delta'' # c) =
           a @ ''Delta (CR)'' # b @ ''Delta (CTR)'' # c"
proof -
  let ?r = "map fst (filter (\<lambda>(i, c). c = ''Delta'')
              (enumerate (Suc (Suc (length a) + length b)) c))"
  have d: "delta_idx (a @ ''Delta'' # b @ ''Delta'' # c) =
             length a # (Suc (length a) + length b) # ?r"
    using assms by (simp add: delta_idx_first idx_first_from)
  have u1: "(a @ ''Delta'' # b @ ''Delta'' # c)[length a := ''Delta (CR)''] =
              a @ ''Delta (CR)'' # b @ ''Delta'' # c"
    by simp
  have u2: "(a @ ''Delta (CR)'' # b @ ''Delta'' # c)[Suc (length a) + length b := ''Delta (CTR)'']
              = a @ ''Delta (CR)'' # b @ ''Delta (CTR)'' # c"
    by (simp add: list_update_append)
  show ?thesis
    unfolding rename_delta_def d Let_def using u1 u2 by simp
qed

text \<open>
  Claim C4, as the code has it. With no header equal to \<open>Delta\<close> the headers are
  unchanged; a single \<open>Delta\<close> becomes \<open>Delta (CR)\<close>; with two or more, the first
  becomes \<open>Delta (CR)\<close>, the second \<open>Delta (CTR)\<close>, and every header after the second
  (written \<open>c\<close>, further \<open>Delta\<close>s included) is unchanged. All other headers keep their
  place.
\<close>

theorem rename_delta_positional:
  "(''Delta'' \<notin> set cols \<longrightarrow> rename_delta cols = cols) \<and>
   (''Delta'' \<notin> set a \<and> ''Delta'' \<notin> set b \<longrightarrow>
      rename_delta (a @ ''Delta'' # b) = a @ ''Delta (CR)'' # b) \<and>
   (''Delta'' \<notin> set a \<and> ''Delta'' \<notin> set b \<longrightarrow>
      rename_delta (a @ ''Delta'' # b @ ''Delta'' # c) =
        a @ ''Delta (CR)'' # b @ ''Delta (CTR)'' # c)"
  using rename_delta_zero rename_delta_one rename_delta_two by blast

theorem rename_delta_positional_witness:
  "rename_delta [''Keyword'', ''Clicks''] = [''Keyword'', ''Clicks''] \<and>
   rename_delta [''Keyword'', ''Delta'', ''Clicks''] = [''Keyword'', ''Delta (CR)'', ''Clicks''] \<and>
   rename_delta [''Keyword'', ''Delta'', ''Delta''] =
     [''Keyword'', ''Delta (CR)'', ''Delta (CTR)''] \<and>
   rename_delta [''Delta'', ''Clicks'', ''Delta'', ''Delta''] =
     [''Delta (CR)'', ''Clicks'', ''Delta (CTR)'', ''Delta'']"
  using rename_delta_positional [of "[''Keyword'', ''Clicks'']" "[''Keyword'']" "[''Clicks'']" "[]"]
        rename_delta_positional [of "[]" "[''Keyword'']" "[]" "[]"]
        rename_delta_positional [of "[]" "[]" "[''Clicks'']" "[''Delta'']"]
  by simp

text \<open>
  The claim as written leaves the headers unchanged when more than two equal
  \<open>Delta\<close>. With three, the code renames the first two.
\<close>

theorem rename_delta_three_counterexample:
  "length (filter (\<lambda>c. c = ''Delta'') [''Delta'', ''Delta'', ''Delta'']) > 2 \<and>
   rename_delta [''Delta'', ''Delta'', ''Delta''] = [''Delta (CR)'', ''Delta (CTR)'', ''Delta''] \<and>
   rename_delta [''Delta'', ''Delta'', ''Delta''] \<noteq> [''Delta'', ''Delta'', ''Delta'']"
  by (simp add: rename_delta_def delta_idx_def)

subsection \<open>The bucket cascade\<close>

text \<open>
  Claim C2. After the cascade every row of the processed table carries exactly one of
  the five labels. The rules are applied in the order 2, 3, 4, 5 and a later match
  overwrites an earlier one, so the label is that of the last rule that matches, and
  the default label when none does; in particular a row that satisfies rule 2 and
  rule 4 is labelled \<open>PPC Scaling Opportunity\<close>. A rule one of whose share values is
  missing does not match.
\<close>

theorem bucket_cascade:
  assumes "wf_frame df" and "i < nrows (prep_df py df)"
  shows "\<exists>col. get_col (prep_df py df) ''Bucket'' = Some col \<and>
           length col = nrows (prep_df py df) \<and>
           (let out = prep_df py df;
                ds = fcol out ''DemandScore'' ! i;
                imp = fcol out ''Impressions - ASIN Share'' ! i;
                clk = fcol out ''Clicks - ASIN Share'' ! i;
                pur = fcol out ''Purchases - ASIN Share'' ! i
            in col ! i \<in> Str ` {''Ignore / Low Signal'', ''Ranking Opportunity'', ''Conversion Problem'',
                                 ''PPC Scaling Opportunity'', ''Defend Position''} \<and>
               col ! i = Str (if rule5 imp pur then ''Defend Position''
                              else if rule4 ds imp clk pur then ''PPC Scaling Opportunity''
                              else if rule3 ds clk pur then ''Conversion Problem''
                              else if rule2 ds imp clk then ''Ranking Opportunity''
                              else ''Ignore / Low Signal'') \<and>
               (rule2 ds imp clk \<and> rule4 ds imp clk pur \<longrightarrow> col ! i = Str ''PPC Scaling Opportunity'') \<and>
               (isna imp \<or> isna clk \<longrightarrow> \<not> rule2 ds imp clk) \<and>
               (isna clk \<or> isna pur \<longrightarrow> \<not> rule3 ds clk pur) \<and>
               (isna imp \<or> isna clk \<or> isna pur \<longrightarrow> \<not> rule4 ds imp clk pur) \<and>
               (isna imp \<or> isna pur \<longrightarrow> \<not> rule5 imp pur))"
proof -
  define X where "X = opportunity_stage (demand_score_stage
       (gap_stage (market_demand_stage (keyword_stage py (coerce_stage py (rename_stage df))))))"
  have out: "prep_df py df = action_stage (bucket_stage X)"
    by (simp add: prep_df_unfold X_def)
  have wfX: "wf_frame X"
    unfolding X_def using assms(1)
    by (simp add: opportunity_stage_frame demand_score_stage_frame gap_stage_frame
        market_demand_stage_frame wf_keyword_stage coerce_stage_frame rename_stage_frame)
  have n: "nrows (prep_df py df) = nrows X"
    by (simp add: out action_stage_frame bucket_stage_frame)
  have f: "fcol (prep_df py df) c = fcol X c" if "c \<noteq> ''Bucket''" "c \<noteq> ''Suggested Action''" for c
    using that by (simp add: out action_stage_frame bucket_stage_frame)
  from bucket_stage_nth [OF wfX, of i] assms(2) n
  obtain col where col: "get_col (bucket_stage X) ''Bucket'' = Some col" "length col = nrows X"
    "col ! i = cascade (fcol X ''DemandScore'' ! i) (fcol X ''Impressions - ASIN Share'' ! i)
                       (fcol X ''Clicks - ASIN Share'' ! i) (fcol X ''Purchases - ASIN Share'' ! i)"
    by auto
  have g: "get_col (prep_df py df) ''Bucket'' = Some col"
    by (simp add: out action_stage_frame col)
  show ?thesis
    apply (rule exI [of _ col])
    apply (simp only: g n Let_def f)
    apply (simp add: col f cascade_def rule_nan)
    using rule4_not_rule5 apply blast
    done
qed

theorem bucket_cascade_witness:
  "wf_frame demo_frame \<and> 0 < nrows (prep_df plain_builtins demo_frame) \<and>
   rule2 (Fin 1) (Fin 0.05) (Fin 0.02) \<and> rule4 (Fin 1) (Fin 0.05) (Fin 0.02) (Fin 0.03) \<and>
   get_col (prep_df plain_builtins demo_frame) ''Bucket'' = Some [Str ''PPC Scaling Opportunity'']"
  using bucket_cascade [of demo_frame 0 plain_builtins]
  unfolding prep_df_demo
  by (simp add: demo_frame_def demo_out_def wf_frame_def get_col_def fcol_def
      rule2_def rule3_def rule4_def rule5_def fgt_def fge_def)


subsection \<open>Scores are non-negative or missing\<close>

lemma fge0_iff: "fge x (Fin 0) \<longleftrightarrow> x = PInf \<or> (\<exists>r. x = Fin r \<and> 0 \<le> r)"
  by (cases x) (auto simp: fge_def)

lemma clip_fill_nonneg: "fge (clip_lower0 (fillna0 x)) (Fin 0)"
  by (cases x) (auto simp: clip_lower0_def fillna0_def fge_def)

lemma log1p_nonneg: "fge x (Fin 0) \<Longrightarrow> fge (log1p x) (Fin 0)"
  by (auto simp: fge0_iff)

lemma foldl_pick_in: "foldl (\<lambda>a b. if flt a b then b else a) y ys \<in> set (y # ys)"
  by (induction ys arbitrary: y) (auto split: if_splits)

lemma series_max_cases: "series_max xs = NaN \<or> (series_max xs \<in> set xs \<and> \<not> isna (series_max xs))"
proof (cases "filter (\<lambda>x. \<not> isna x) xs")
  case Nil
  then show ?thesis by (simp add: series_max_def)
next
  case (Cons y ys)
  then have "series_max xs \<in> set (y # ys)"
    using foldl_pick_in [of y ys] by (simp add: series_max_def)
  then have "series_max xs \<in> set (filter (\<lambda>x. \<not> isna x) xs)"
    using Cons by simp
  then show ?thesis by auto
qed

lemma fdiv_nonneg:
  "fge x (Fin 0) \<Longrightarrow> fge m (Fin 0) \<Longrightarrow> fgt m (Fin 0) \<Longrightarrow> isna (fdiv x m) \<or> fge (fdiv x m) (Fin 0)"
  by (auto simp: fge0_iff fgt_def inf_of_sign_def)

lemma demand_score_range:
  assumes "y \<in> set (demand_score md)"
  shows "isna y \<or> fge y (Fin 0)"
proof -
  let ?score = "map log1p (map (\<lambda>x. clip_lower0 (fillna0 x)) md)"
  let ?m = "series_max ?score"
  have nn: "fge z (Fin 0)" if "z \<in> set ?score" for z
    using that by (auto intro: log1p_nonneg clip_fill_nonneg)
  show ?thesis
  proof (cases "fgt ?m (Fin 0)")
    case True
    then have "?m \<noteq> NaN" by (auto simp: fgt_def)
    with series_max_cases [of ?score] have "?m \<in> set ?score" by auto
    then have m: "fge ?m (Fin 0)" by (rule nn)
    from assms True obtain z where z: "z \<in> set ?score" "y = fdiv z ?m"
      by (auto simp: demand_score_def Let_def)
    with fdiv_nonneg [OF nn [OF z(1)] m True] show ?thesis by simp
  next
    case False
    with assms have "y \<in> set ?score" by (simp add: demand_score_def Let_def)
    then show ?thesis using nn by blast
  qed
qed

lemma pos_nonneg: "fge (pos x) (Fin 0)"
  by (cases x) (auto simp: pos_def fmaximum_def fge_def)

lemma fmul_const_nonneg: "0 < c \<Longrightarrow> fge x (Fin 0) \<Longrightarrow> fge (fmul (Fin c) x) (Fin 0)"
  by (auto simp: fge0_iff inf_of_sign_def)

lemma fadd_nonneg: "fge x (Fin 0) \<Longrightarrow> fge y (Fin 0) \<Longrightarrow> fge (fadd x y) (Fin 0)"
  by (auto simp: fge0_iff)

lemma weighted_sum_nonneg:
  "fge ds (Fin 0) \<Longrightarrow> fge (weighted_sum ds cg cv sp) (Fin 0)"
  unfolding weighted_sum_def
  by (intro fadd_nonneg fmul_const_nonneg pos_nonneg) simp_all

lemma weighted_sum_nan [simp]: "weighted_sum NaN cg cv sp = NaN"
  by (simp add: weighted_sum_def)

lemma fillna0_weighted_sum:
  assumes "isna ds \<or> fge ds (Fin 0)"
  shows "fge (fillna0 (weighted_sum ds cg cv sp)) (Fin 0)"
proof (cases "isna ds")
  case True
  then have "ds = NaN" by (cases ds) auto
  then show ?thesis by (simp add: fillna0_def fge_def)
next
  case False
  with assms have "fge (weighted_sum ds cg cv sp) (Fin 0)" by (simp add: weighted_sum_nonneg)
  then show ?thesis by (auto simp: fillna0_def fge_def)
qed

lemma weighted_sum_missing_gaps: "weighted_sum ds NaN NaN NaN = fmul (Fin 0.55) ds"
  by (cases ds) (simp_all add: weighted_sum_def pos_def inf_of_sign_def)


lemma demand_score_stage_col:
  "fcol (demand_score_stage df) ''DemandScore'' = demand_score (fcol df ''Market_Demand'')"
  by (simp add: demand_score_stage_def)

subsection \<open>The opportunity score\<close>

text \<open>
  Claim C1, as the code has it. In every row of the processed table whose
  \<open>DemandScore\<close> is not missing, \<open>OpportunityScore\<close> is
  \<open>0.55 * DemandScore + 0.20 * pos ClickGap + 0.15 * pos ConvGap + 0.10 * pos ShareGap_Purchases\<close>
  where \<open>pos x\<close> is \<open>max x 0\<close> and \<open>0\<close> for a missing \<open>x\<close>; in a row whose
  \<open>DemandScore\<close> is missing the score is \<open>0\<close> (line 219 fills it). In every row the
  score is non-negative and not missing.
\<close>

theorem opportunity_score:
  assumes "wf_frame df" and "i < nrows (prep_df py df)"
  shows "let out = prep_df py df;
             ds = fcol out ''DemandScore'' ! i;
             cg = fcol out ''ClickGap'' ! i;
             cv = fcol out ''ConvGap'' ! i;
             sp = fcol out ''ShareGap_Purchases'' ! i;
             s = fcol out ''OpportunityScore'' ! i
         in length (fcol out ''OpportunityScore'') = nrows out \<and>
            (\<not> isna ds \<longrightarrow>
               s = fadd (fadd (fadd (fmul (Fin 0.55) ds) (fmul (Fin 0.20) (pos cg)))
                              (fmul (Fin 0.15) (pos cv)))
                        (fmul (Fin 0.10) (pos sp))) \<and>
            (isna ds \<longrightarrow> s = Fin 0) \<and>
            pos NaN = Fin 0 \<and>
            fge s (Fin 0) \<and> \<not> isna s"
proof -
  define Z where "Z = gap_stage (market_demand_stage
                         (keyword_stage py (coerce_stage py (rename_stage df))))"
  define X where "X = demand_score_stage Z"
  have out: "prep_df py df = action_stage (bucket_stage (opportunity_stage X))"
    by (simp add: prep_df_unfold X_def Z_def)
  have wfX: "wf_frame X"
    unfolding X_def Z_def using assms(1)
    by (simp add: demand_score_stage_frame gap_stage_frame
        market_demand_stage_frame wf_keyword_stage coerce_stage_frame rename_stage_frame)
  have n: "nrows (prep_df py df) = nrows X"
    by (simp add: out action_stage_frame bucket_stage_frame opportunity_stage_frame)
  have f: "fcol (prep_df py df) c = fcol X c"
    if "c \<noteq> ''Bucket''" "c \<noteq> ''Suggested Action''" "c \<noteq> ''OpportunityScore''" for c
    using that by (simp add: out action_stage_frame bucket_stage_frame opportunity_stage_frame)
  have len: "length (fcol X c) = nrows X" for c
    using wfX by (rule length_fcol)
  have i: "i < nrows X" using assms(2) n by simp
  let ?ds = "fcol X ''DemandScore'' ! i"
  let ?cg = "fcol X ''ClickGap'' ! i"
  let ?cv = "fcol X ''ConvGap'' ! i"
  let ?sp = "fcol X ''ShareGap_Purchases'' ! i"
  have os: "fcol (prep_df py df) ''OpportunityScore'' =
     map (\<lambda>(ds, cg, cv, sp). fillna0 (weighted_sum ds cg cv sp))
       (zip (fcol X ''DemandScore'') (zip (fcol X ''ClickGap'')
          (zip (fcol X ''ConvGap'') (fcol X ''ShareGap_Purchases''))))"
    by (simp add: out action_stage_frame bucket_stage_frame opportunity_stage_col)
  have oslen: "length (fcol (prep_df py df) ''OpportunityScore'') = nrows X"
    by (simp add: os len)
  have osi: "fcol (prep_df py df) ''OpportunityScore'' ! i = fillna0 (weighted_sum ?ds ?cg ?cv ?sp)"
    using i by (simp add: os len)
  have "?ds \<in> set (demand_score (fcol Z ''Market_Demand''))"
    using i len [of "''DemandScore''"]
    by (metis X_def demand_score_stage_col nth_mem)
  then have range: "isna ?ds \<or> fge ?ds (Fin 0)"
    by (rule demand_score_range)
  have nonneg: "fge (fillna0 (weighted_sum ?ds ?cg ?cv ?sp)) (Fin 0)"
    using range by (rule fillna0_weighted_sum)
  have notna: "\<not> isna (fillna0 (weighted_sum ?ds ?cg ?cv ?sp))"
    using nonneg by (auto simp: fge_def)
  have eq: "fillna0 (weighted_sum ?ds ?cg ?cv ?sp) = weighted_sum ?ds ?cg ?cv ?sp" if "\<not> isna ?ds"
  proof -
    from that range have "fge (weighted_sum ?ds ?cg ?cv ?sp) (Fin 0)"
      by (simp add: weighted_sum_nonneg)
    then show ?thesis by (auto simp: fillna0_def fge_def)
  qed
  have na: "fillna0 (weighted_sum ?ds ?cg ?cv ?sp) = Fin 0" if "isna ?ds"
  proof -
    from that have "?ds = NaN" by (cases ?ds) auto
    then show ?thesis by (simp add: fillna0_def)
  qed
  show ?thesis
    unfolding Let_def
    apply (simp only: osi oslen n f [of "''DemandScore''", simplified]
        f [of "''ClickGap''", simplified] f [of "''ConvGap''", simplified]
        f [of "''ShareGap_Purchases''", simplified])
    using nonneg notna eq na
    apply (simp add: weighted_sum_def pos_def)
    done
qed

theorem opportunity_score_witness:
  "wf_frame demo_frame \<and> 0 < nrows (prep_df plain_builtins demo_frame) \<and>
   fcol (prep_df plain_builtins demo_frame) ''OpportunityScore'' ! 0 = Fin 0.557 \<and>
   fadd (fadd (fadd (fmul (Fin 0.55) (Fin 1)) (fmul (Fin 0.20) (pos (Fin 0.03))))
              (fmul (Fin 0.15) (pos NaN)))
        (fmul (Fin 0.10) (pos (Fin 0.01))) = Fin 0.557"
  using opportunity_score [of demo_frame 0 plain_builtins]
  unfolding prep_df_demo
  by (simp add: demo_frame_def demo_out_def wf_frame_def get_col_def fcol_def pos_def
      fmaximum_def fge_def)

text \<open>
  The claim as written gives the formula for every row. A demand of plus infinity makes
  the column maximum infinite, \<open>inf / inf\<close> is NaN, and the row's \<open>DemandScore\<close> is
  missing: the formula is then NaN while the score is \<open>0\<close>.
\<close>

theorem opportunity_score_nan_demand_counterexample:
  "fcol (prep_df plain_builtins inf_frame) ''DemandScore'' ! 0 = NaN \<and>
   fcol (prep_df plain_builtins inf_frame) ''OpportunityScore'' ! 0 = Fin 0 \<and>
   fcol (prep_df plain_builtins inf_frame) ''OpportunityScore'' ! 0 \<noteq>
     weighted_sum (fcol (prep_df plain_builtins inf_frame) ''DemandScore'' ! 0)
                  (fcol (prep_df plain_builtins inf_frame) ''ClickGap'' ! 0)
                  (fcol (prep_df plain_builtins inf_frame) ''ConvGap'' ! 0)
                  (fcol (prep_df plain_builtins inf_frame) ''ShareGap_Purchases'' ! 0)"
  unfolding prep_df_inf
  by (simp add: inf_out_def get_col_def fcol_def)

subsection \<open>Demand normalisation\<close>

lemma no_positive_zero:
  "\<not> fgt x (Fin 0) \<Longrightarrow> log1p (clip_lower0 (fillna0 x)) = Fin 0"
  by (cases x) (auto simp: fgt_def clip_lower0_def fillna0_def)

lemma series_max_zeros: "series_max (map (\<lambda>x. Fin 0) xs) = (if xs = [] then NaN else Fin 0)"
proof -
  have "foldl (\<lambda>a b. if flt a b then b else a) (Fin 0) (map (\<lambda>x. Fin 0) ys) = Fin 0" for ys :: "'a list"
    by (induction ys) auto
  then show ?thesis
    by (cases xs) (auto simp: series_max_def)
qed

lemma demand_score_no_signal:
  assumes "\<forall>x\<in>set md. \<not> fgt x (Fin 0)"
  shows "demand_score md = map (\<lambda>x. Fin 0) md"
proof -
  have s: "map log1p (map (\<lambda>x. clip_lower0 (fillna0 x)) md) = map (\<lambda>x. Fin 0) md"
    using assms by (simp add: no_positive_zero)
  show ?thesis
    unfolding demand_score_def Let_def s
    by (simp add: series_max_zeros fgt_def)
qed


lemma clip_fill_dreal: "x \<noteq> PInf \<Longrightarrow> clip_lower0 (fillna0 x) = Fin (dreal x)"
  by (cases x) (auto simp: clip_lower0_def fillna0_def)

lemma log1p_dreal: "x \<noteq> PInf \<Longrightarrow> log1p (clip_lower0 (fillna0 x)) = Fin (ln (1 + dreal x))"
proof -
  assume "x \<noteq> PInf"
  moreover have "0 \<le> dreal x" by (cases x) auto
  ultimately show ?thesis by (simp add: clip_fill_dreal)
qed

lemma foldl_pick_Fin:
  "foldl (\<lambda>a b. if flt a b then b else a) (Fin y) (map Fin ys) = Fin (Max (set (y # ys)))"
proof (induction ys arbitrary: y)
  case Nil
  then show ?case by simp
next
  case (Cons z zs)
  have "Max (insert y (insert z (set zs))) = Max (insert (max y z) (set zs))"
    by (metis List.finite_set Max_insert Max_singleton finite_insert insert_not_empty max.assoc)
  then show ?case
    using Cons [of "if y < z then z else y"] by (auto simp: max_def)
qed

lemma series_max_Fin:
  "ys \<noteq> [] \<Longrightarrow> series_max (map Fin ys) = Fin (Max (set ys))"
proof -
  assume "ys \<noteq> []"
  then obtain z zs where ys: "ys = z # zs" by (cases ys) auto
  have "filter (\<lambda>x. \<not> isna x) (map Fin ys) = map Fin ys"
    by (induction ys) auto
  then show ?thesis
    using foldl_pick_Fin [of z zs] by (simp add: series_max_def ys)
qed

lemma demand_score_finite:
  assumes noinf: "PInf \<notin> set md" and some: "\<exists>x\<in>set md. fgt x (Fin 0)"
  defines "M \<equiv> Max (set (map (\<lambda>x. ln (1 + dreal x)) md))"
  shows "0 < M" and "demand_score md = map (\<lambda>x. Fin (ln (1 + dreal x) / M)) md"
proof -
  let ?l = "map (\<lambda>x. ln (1 + dreal x)) md"
  have ne: "md \<noteq> []" using some by auto
  have s: "map log1p (map (\<lambda>x. clip_lower0 (fillna0 x)) md) = map Fin ?l"
    using noinf by (induction md) (auto simp: log1p_dreal)
  from some obtain x where x: "x \<in> set md" "fgt x (Fin 0)" by auto
  with noinf have "0 < dreal x" by (cases x) (auto simp: fgt_def)
  then have "0 < ln (1 + dreal x)" by simp
  moreover have "ln (1 + dreal x) \<le> M"
    unfolding M_def using x(1) by (intro Max_ge) auto
  ultimately show M: "0 < M" by linarith
  have m: "series_max (map Fin ?l) = Fin M"
    unfolding M_def using ne by (intro series_max_Fin) simp
  show "demand_score md = map (\<lambda>x. Fin (ln (1 + dreal x) / M)) md"
    unfolding demand_score_def Let_def s m using M
    by (simp add: fgt_def comp_def)
qed


lemma prep_df_demand_score:
  "fcol (prep_df py df) ''DemandScore'' = demand_score (fcol (prep_df py df) ''Market_Demand'')"
  by (simp add: prep_df_unfold action_stage_frame bucket_stage_frame opportunity_stage_frame
      demand_score_stage_frame demand_score_stage_col)

text \<open>
  Claim C3, as the code has it. If no row has a positive demand (every demand is
  missing, zero or negative), every \<open>DemandScore\<close> is \<open>0\<close>. If some row has a
  positive demand and no row has the demand plus infinity, every \<open>DemandScore\<close> is a
  number in \<open>[0, 1]\<close>, namely \<open>ln (1 + d)\<close> over the largest such value of the column
  (\<open>d\<close> the demand, \<open>0\<close> when missing or negative), and a row whose demand no other
  row exceeds has \<open>DemandScore\<close> exactly \<open>1\<close>. The \<open>DemandScore\<close> column of the
  processed table is this function of its \<open>Market_Demand\<close> column.
\<close>

theorem demand_score_normalised:
  "((\<forall>x\<in>set md. \<not> fgt x (Fin 0)) \<longrightarrow> (\<forall>y\<in>set (demand_score md). y = Fin 0)) \<and>
   (PInf \<notin> set md \<and> (\<exists>x\<in>set md. fgt x (Fin 0)) \<longrightarrow>
      (\<forall>y\<in>set (demand_score md). \<exists>r. y = Fin r \<and> 0 \<le> r \<and> r \<le> 1) \<and>
      (\<forall>i<length md.
         demand_score md ! i =
           Fin (ln (1 + dreal (md ! i)) / Max (set (map (\<lambda>x. ln (1 + dreal x)) md)))) \<and>
      (\<forall>i<length md. fgt (md ! i) (Fin 0) \<and> (\<forall>x\<in>set md. \<not> flt (md ! i) x) \<longrightarrow>
         demand_score md ! i = Fin 1)) \<and>
   fcol (prep_df py df) ''DemandScore'' = demand_score (fcol (prep_df py df) ''Market_Demand'')"
proof (intro conjI impI)
  assume "\<forall>x\<in>set md. \<not> fgt x (Fin 0)"
  then show "\<forall>y\<in>set (demand_score md). y = Fin 0"
    by (auto simp: demand_score_no_signal)
next
  show "fcol (prep_df py df) ''DemandScore'' = demand_score (fcol (prep_df py df) ''Market_Demand'')"
    by (rule prep_df_demand_score)
next
  assume a: "PInf \<notin> set md \<and> (\<exists>x\<in>set md. fgt x (Fin 0))"
  define M where "M = Max (set (map (\<lambda>x. ln (1 + dreal x)) md))"
  from a have a1: "PInf \<notin> set md" and a2: "\<exists>x\<in>set md. fgt x (Fin 0)" by auto
  have M: "0 < M"
    unfolding M_def by (rule demand_score_finite(1) [OF a1 a2])
  have ds: "demand_score md = map (\<lambda>x. Fin (ln (1 + dreal x) / M)) md"
    unfolding M_def by (rule demand_score_finite(2) [OF a1 a2])
  have le: "ln (1 + dreal x) \<le> M" if "x \<in> set md" for x
    unfolding M_def using that by (intro Max_ge) auto
  have ge: "0 \<le> ln (1 + dreal x)" for x
    by (cases x) auto
  show "\<forall>y\<in>set (demand_score md). \<exists>r. y = Fin r \<and> 0 \<le> r \<and> r \<le> 1"
    using M le ge by (auto simp: ds)
  show "\<forall>i<length md. demand_score md ! i =
           Fin (ln (1 + dreal (md ! i)) / Max (set (map (\<lambda>x. ln (1 + dreal x)) md)))"
    by (simp add: ds M_def)
  show "\<forall>i<length md. fgt (md ! i) (Fin 0) \<and> (\<forall>x\<in>set md. \<not> flt (md ! i) x) \<longrightarrow>
         demand_score md ! i = Fin 1"
  proof (intro allI impI)
    fix i
    assume i: "i < length md" and top: "fgt (md ! i) (Fin 0) \<and> (\<forall>x\<in>set md. \<not> flt (md ! i) x)"
    from a i have "md ! i \<noteq> PInf" by (metis nth_mem)
    with top obtain r where r: "md ! i = Fin r" "0 < r"
      by (cases "md ! i") (auto simp: fgt_def)
    have dle: "dreal x \<le> r" if "x \<in> set md" for x
    proof -
      have "\<not> flt (Fin r) x" using top r that by auto
      moreover have "x \<noteq> PInf" using a1 that by auto
      ultimately show ?thesis using r(2) by (cases x) (auto simp: max_def)
    qed
    have "ln (1 + dreal x) \<le> ln (1 + r)" if "x \<in> set md" for x
    proof -
      have "0 \<le> dreal x" by (cases x) auto
      moreover have "dreal x \<le> r" using that by (rule dle)
      ultimately show ?thesis by simp
    qed
    then have "M \<le> ln (1 + r)"
      unfolding M_def using a by (intro Max.boundedI) auto
    moreover have "ln (1 + r) \<le> M"
      using le [OF nth_mem [OF i]] r by (simp add: max_def)
    ultimately have "M = ln (1 + r)" by simp
    with M i r show "demand_score md ! i = Fin 1"
      by (simp add: ds max_def)
  qed
qed

theorem demand_score_normalised_witness:
  "demand_score [Fin 0, NaN] = [Fin 0, Fin 0] \<and>
   demand_score [Fin 999, NaN, Fin 0, Fin (- 3)] ! 0 = Fin 1 \<and>
   fcol (prep_df plain_builtins demo_frame) ''DemandScore'' =
     demand_score (fcol (prep_df plain_builtins demo_frame) ''Market_Demand'')"
proof -
  let ?a = "[Fin 0, NaN]"
  let ?b = "[Fin 999, NaN, Fin 0, Fin (- 3)]"
  note A = demand_score_normalised [of ?a plain_builtins demo_frame]
  note B = demand_score_normalised [of ?b plain_builtins demo_frame]
  have "\<forall>x\<in>set ?a. \<not> fgt x (Fin 0)" by (simp add: fgt_def)
  with A have "\<forall>y\<in>set (demand_score ?a). y = Fin 0" by blast
  moreover have "length (demand_score ?a) = 2" by simp
  ultimately have a: "demand_score ?a = [Fin 0, Fin 0]"
    by (cases "demand_score ?a"; cases "tl (demand_score ?a)") auto
  have "PInf \<notin> set ?b \<and> (\<exists>x\<in>set ?b. fgt x (Fin 0))" by (simp add: fgt_def)
  with B have "\<forall>i<length ?b. fgt (?b ! i) (Fin 0) \<and> (\<forall>x\<in>set ?b. \<not> flt (?b ! i) x) \<longrightarrow>
         demand_score ?b ! i = Fin 1" by blast
  then have "fgt (?b ! 0) (Fin 0) \<and> (\<forall>x\<in>set ?b. \<not> flt (?b ! 0) x) \<longrightarrow>
         demand_score ?b ! 0 = Fin 1" by simp
  then have b: "demand_score ?b ! 0 = Fin 1" by (simp add: fgt_def)
  from A a b show ?thesis by simp
qed

text \<open>
  The claim as written covers every column with a positive demand. With a demand of
  plus infinity the row with the largest demand gets NaN, not \<open>1\<close>.
\<close>

theorem demand_score_infinite_counterexample:
  "fgt PInf (Fin 0) \<and> \<not> flt PInf (Fin 3) \<and> \<not> flt PInf PInf \<and>
   demand_score [Fin 3, PInf] = [Fin 0, NaN]"
  by (simp add: demand_score_def fillna0_def clip_lower0_def series_max_def fgt_def)


subsection \<open>The percent rule\<close>

lemma coerce_percent_char:
  "coerce_percent py series =
     (let s = map (to_number py) series
      in if list_ex isfinite s \<and> fgt (nanmedian s) (Fin 1)
         then map (\<lambda>x. fdiv x (Fin 100)) s else s)"
proof -
  have "\<not> isna m \<and> fgt m (Fin 1) \<longleftrightarrow> fgt m (Fin 1)" for m
    by (cases m) (auto simp: fgt_def)
  then show ?thesis
    by (auto simp: coerce_percent_def Let_def fgt_def)
qed

lemma finite_filter:
  assumes "PInf \<notin> set s" "NInf \<notin> set s"
  shows "filter (\<lambda>x. \<not> isna x) s = filter isfinite s"
proof (rule filter_cong [OF refl])
  fix x assume "x \<in> set s"
  with assms show "(\<not> isna x) = isfinite x" by (cases x) auto
qed

lemma list_ex_filter: "list_ex P s \<longleftrightarrow> filter P s \<noteq> []"
  by (induction s) auto

text \<open>
  Claim C5, as the code has it. After the cells are coerced, the column is divided by
  \<open>100\<close> exactly when at least one coerced value is finite and the median of the
  coerced values that are not missing (the infinite ones included) is strictly
  greater than \<open>1\<close>; otherwise it is left unchanged, in particular when that median is
  exactly \<open>1\<close> and when no coerced value is finite. For a column with no infinite
  value this is the rule of the specification: the median of the finite values decides.
\<close>

theorem coerce_percent_rule:
  "(let s = map (to_number py) series
    in coerce_percent py series =
         (if list_ex isfinite s \<and> fgt (nanmedian s) (Fin 1)
          then map (\<lambda>x. fdiv x (Fin 100)) s else s) \<and>
       (PInf \<notin> set s \<and> NInf \<notin> set s \<longrightarrow>
          coerce_percent py series = coerce_percent_spec py series) \<and>
       (nanmedian s = Fin 1 \<longrightarrow> coerce_percent py series = s) \<and>
       (\<not> list_ex isfinite s \<longrightarrow> coerce_percent py series = s))"
proof -
  let ?s = "map (to_number py) series"
  have char: "coerce_percent py series =
         (if list_ex isfinite ?s \<and> fgt (nanmedian ?s) (Fin 1)
          then map (\<lambda>x. fdiv x (Fin 100)) ?s else ?s)"
    using coerce_percent_char [of py series] by (simp add: Let_def)
  have spec: "coerce_percent py series = coerce_percent_spec py series"
    if "PInf \<notin> set ?s \<and> NInf \<notin> set ?s"
  proof -
    from that have "nanmedian ?s = median_sorted (fsort (filter isfinite ?s))"
      by (simp add: nanmedian_def finite_filter)
    then show ?thesis
      unfolding char coerce_percent_spec_def Let_def
      by (simp add: list_ex_filter)
  qed
  have one: "coerce_percent py series = ?s" if "nanmedian ?s = Fin 1"
    unfolding char using that by (simp add: fgt_def)
  have none: "coerce_percent py series = ?s" if "\<not> list_ex isfinite ?s"
    unfolding char using that by simp
  show ?thesis
    unfolding Let_def using char spec one none by blast
qed

theorem coerce_percent_rule_witness:
  "coerce_percent plain_builtins [Num (Fin 3.2), Num (Fin 5), Num NaN] = [Fin 0.032, Fin 0.05, NaN] \<and>
   coerce_percent plain_builtins [Num (Fin 0.5), Num (Fin 1), Num (Fin 1.5)] = [Fin 0.5, Fin 1, Fin 1.5] \<and>
   coerce_percent plain_builtins [Str ''n/a'', Num NaN] = [NaN, NaN] \<and>
   coerce_percent_spec plain_builtins [Num (Fin 3.2), Num (Fin 5), Num NaN] = [Fin 0.032, Fin 0.05, NaN]"
  using coerce_percent_rule [of plain_builtins "[Num (Fin 3.2), Num (Fin 5), Num NaN]"]
        coerce_percent_rule [of plain_builtins "[Num (Fin 0.5), Num (Fin 1), Num (Fin 1.5)]"]
        coerce_percent_rule [of plain_builtins "[Str ''n/a'', Num NaN]"]
  by (simp add: to_number_def nanmedian_def fsort_def median_sorted_def fgt_def
      plain_builtins_def strip_def is_space_def Let_def coerce_percent_spec_def
      split del: if_split cong: let_weak_cong)

text \<open>
  The claim as written takes the median of the finite values. In the column
  \<open>inf, inf, 0.5\<close> that median is \<open>0.5\<close>, so the claim leaves the column unchanged;
  the code's median is \<open>inf\<close> and the column is divided by \<open>100\<close>. A column
  holding only \<open>inf\<close> has no finite value and is left as it is, which is not all-missing.
\<close>

theorem coerce_percent_infinite_counterexample:
  "filter isfinite (map (to_number plain_builtins) [Num PInf, Num PInf, Num (Fin 0.5)]) = [Fin 0.5] \<and>
   median_sorted (fsort [Fin 0.5]) = Fin 0.5 \<and>
   \<not> fgt (Fin 0.5) (Fin 1) \<and>
   coerce_percent_spec plain_builtins [Num PInf, Num PInf, Num (Fin 0.5)] = [PInf, PInf, Fin 0.5] \<and>
   coerce_percent plain_builtins [Num PInf, Num PInf, Num (Fin 0.5)] = [PInf, PInf, Fin 0.005] \<and>
   coerce_percent plain_builtins [Num PInf] = [PInf]"
  by (simp add: coerce_percent_def coerce_percent_spec_def to_number_def nanmedian_def fsort_def
      median_sorted_def fgt_def inf_of_sign_def)

subsection \<open>The row filter\<close>

lemma has_col_iff: "has_col df c \<longleftrightarrow> get_col df c \<noteq> None"
  by (simp add: has_col_def get_col_def map_of_eq_None_iff)

lemma map_of_zip_update:
  "k \<noteq> y \<Longrightarrow> (i < length ns \<Longrightarrow> ns ! i \<noteq> k) \<Longrightarrow>
     map_of (zip (ns[i := y]) vs) k = map_of (zip ns vs) k"
proof (induction ns arbitrary: i vs)
  case Nil
  then show ?case by simp
next
  case (Cons n ns)
  show ?case
  proof (cases vs)
    case Nil
    then show ?thesis by simp
  next
    case (Cons v vs')
    with Cons.prems Cons.IH show ?thesis
      by (cases i) auto
  qed
qed

lemma delta_idx_nth:
  "d \<in> set (delta_idx cols) \<Longrightarrow> d < length cols \<and> cols ! d = ''Delta''"
  by (auto simp: delta_idx_def in_set_enumerate_eq)

lemma rename_delta_map_of:
  assumes "k \<noteq> ''Delta''" "k \<noteq> ''Delta (CR)''" "k \<noteq> ''Delta (CTR)''"
  shows "map_of (zip (rename_delta ns) vs) k = map_of (zip ns vs) k"
proof -
  let ?d = "delta_idx ns"
  have d0: "?d ! 0 < length ns \<and> ns ! (?d ! 0) = ''Delta''" if "1 \<le> length ?d"
    using that delta_idx_nth [of "?d ! 0" ns] by (simp add: Suc_le_eq)
  have d1: "?d ! 1 < length ns \<and> ns ! (?d ! 1) = ''Delta''" if "2 \<le> length ?d"
    using that delta_idx_nth [of "?d ! 1" ns] by (simp add: Suc_le_eq)
  have one: "map_of (zip (ns[?d ! 0 := ''Delta (CR)'']) vs) k = map_of (zip ns vs) k"
    if "1 \<le> length ?d"
    using assms d0 [OF that] by (intro map_of_zip_update) auto
  have two: "map_of (zip ((ns[?d ! 0 := ''Delta (CR)''])[?d ! 1 := ''Delta (CTR)'']) vs) k =
             map_of (zip (ns[?d ! 0 := ''Delta (CR)'']) vs) k"
    if "2 \<le> length ?d"
  proof (rule map_of_zip_update)
    show "k \<noteq> ''Delta (CTR)''" by fact
    from that have "1 \<le> length ?d" by simp
    from d0 [OF this] d1 [OF that] assms
    show "ns[?d ! 0 := ''Delta (CR)''] ! (?d ! 1) \<noteq> k"
      by (simp add: nth_list_update)
  qed
  show ?thesis
    unfolding rename_delta_def Let_def using one two by auto
qed

lemma rename_stage_get:
  assumes "k \<noteq> ''Delta''" "k \<noteq> ''Delta (CR)''" "k \<noteq> ''Delta (CTR)''"
  shows "get_col (rename_stage df) k = get_col df k"
  using rename_delta_map_of [OF assms, of "map fst (columns df)" "map snd (columns df)"]
  by (simp add: get_col_def rename_stage_def zip_map_fst_snd)

lemma coerce_col_get: "k \<noteq> c \<Longrightarrow> get_col (coerce_col f df c) k = get_col df k"
  by (simp add: coerce_col_def split: option.splits)

lemma foldl_coerce_col_get:
  "k \<notin> set cs \<Longrightarrow> get_col (foldl (coerce_col f) df cs) k = get_col df k"
  by (induction cs arbitrary: df) (simp_all add: coerce_col_get)

lemma coerce_stage_get_keyword:
  "get_col (coerce_stage py df) ''Keyword'' = get_col df ''Keyword''"
proof -
  have a: "''Keyword'' \<notin> set (PCT_COLS_CANON @ filter (has_col df) [''Delta (CR)'', ''Delta (CTR)''])"
    by (auto simp: PCT_COLS_CANON_def)
  have b: "''Keyword'' \<notin> set SHARE_COLS_CANON" by (simp add: SHARE_COLS_CANON_def)
  have c: "''Keyword'' \<notin> set NUM_COLS_CANON" by (simp add: NUM_COLS_CANON_def)
  have d: "''Keyword'' \<notin> set FUNNEL_DELTA_COLS" by (simp add: FUNNEL_DELTA_COLS_def)
  show ?thesis
    unfolding coerce_stage_def Let_def
    by (simp only: foldl_coerce_col_get [OF a] foldl_coerce_col_get [OF b]
        foldl_coerce_col_get [OF c] foldl_coerce_col_get [OF d])
qed

lemma select_map: "select (map P xs) xs = filter P xs"
  by (induction xs) (auto simp: select_def)

lemma count_mask: "length (filter id (map P xs)) = length (filter P xs)"
  by (induction xs) auto

lemma take_rows_get: "get_col (take_rows keep df) c = map_option (select keep) (get_col df c)"
  by (simp add: get_col_def take_rows_def map_of_map)

lemma keyword_stage_none:
  "get_col df ''Keyword'' = None \<Longrightarrow> keyword_stage py df = df"
  by (simp add: keyword_stage_def has_col_iff)

lemma keyword_stage_some:
  fixes py :: "'a builtins_scheme"
  assumes "get_col df ''Keyword'' = Some col"
  defines "kept \<equiv> filter (\<lambda>k. k \<noteq> Str [] \<and> k \<noteq> Str ''nan'') (strip_keyword py col)"
  shows "get_col (keyword_stage py df) ''Keyword'' = Some kept"
    and "nrows (keyword_stage py df) = length kept"
proof -
  have s: "strip_keyword_stage py df = set_col df ''Keyword'' (strip_keyword py col)"
    using assms(1) by (simp add: strip_keyword_stage_def)
  have k: "keyword_stage py df =
        take_rows (keyword_mask (strip_keyword py col)) (set_col df ''Keyword'' (strip_keyword py col))"
    using assms(1) by (simp add: keyword_stage_def has_col_iff s filter_keyword_def)
  show "get_col (keyword_stage py df) ''Keyword'' = Some kept"
    by (simp add: k take_rows_get keyword_mask_def select_map kept_def)
  show "nrows (keyword_stage py df) = length kept"
    by (simp add: k take_rows_def keyword_mask_def count_mask kept_def)
qed

lemma derive_get_keyword: "get_col (derive df) ''Keyword'' = get_col df ''Keyword''"
  by (simp add: derive_def action_stage_frame bucket_stage_frame opportunity_stage_frame
      demand_score_stage_frame gap_stage_other market_demand_stage_frame)

lemma prep_df_keyword_source:
  "get_col (coerce_stage py (rename_stage df)) ''Keyword'' = get_col df ''Keyword''"
  by (simp add: coerce_stage_get_keyword rename_stage_get)

lemma prep_df_keyword_none:
  assumes "get_col df ''Keyword'' = None"
  shows "nrows (prep_df py df) = nrows df" and "get_col (prep_df py df) ''Keyword'' = None"
proof -
  let ?X = "coerce_stage py (rename_stage df)"
  have "get_col ?X ''Keyword'' = None"
    using assms by (simp add: prep_df_keyword_source)
  then have "keyword_stage py ?X = ?X"
    by (rule keyword_stage_none)
  then show "nrows (prep_df py df) = nrows df" and "get_col (prep_df py df) ''Keyword'' = None"
    using assms
    by (simp_all add: prep_df_def derive_frame derive_get_keyword prep_df_keyword_source
        coerce_stage_frame rename_stage_frame)
qed

lemma prep_df_keyword_some:
  fixes py :: "'a builtins_scheme"
  assumes "get_col df ''Keyword'' = Some col"
  defines "kept \<equiv> filter (\<lambda>k. k \<noteq> Str [] \<and> k \<noteq> Str ''nan'')
                     (map (\<lambda>x. str_strip (astype_str py x)) col)"
  shows "get_col (prep_df py df) ''Keyword'' = Some kept" and "nrows (prep_df py df) = length kept"
proof -
  let ?X = "coerce_stage py (rename_stage df)"
  have g: "get_col ?X ''Keyword'' = Some col"
    using assms(1) by (simp add: prep_df_keyword_source)
  note ks = keyword_stage_some [OF g, of py]
  show "get_col (prep_df py df) ''Keyword'' = Some kept"
    using ks(1) by (simp add: prep_df_def derive_get_keyword strip_keyword_def kept_def)
  show "nrows (prep_df py df) = length kept"
    using ks(2) by (simp add: prep_df_def derive_frame strip_keyword_def kept_def)
qed

lemma prep_df_no_usable_keyword:
  assumes "get_col df ''Keyword'' = Some col"
    and "\<forall>x\<in>set col. str_strip (astype_str py x) = Str [] \<or>
                     str_strip (astype_str py x) = Str ''nan''"
  shows "nrows (prep_df py df) = 0"
proof -
  have "filter (\<lambda>k. k \<noteq> Str [] \<and> k \<noteq> Str ''nan'')
          (map (\<lambda>x. str_strip (astype_str py x)) col) = []"
    using assms(2) by (induction col) auto
  then show ?thesis
    using prep_df_keyword_some(2) [OF assms(1), of py] by simp
qed

lemma keyword_cell_cases:
  "str_strip (astype_str py x) = Num NaN \<or> (\<exists>s. str_strip (astype_str py x) = Str (strip s))"
  by (cases x) (auto simp: astype_str_def)

text \<open>
  Under pandas 3 the keyword of a row that has none stays missing, passes both tests of
  line 191 and the row is kept; before pandas 3 it is the string \<open>nan\<close> and the row is
  dropped.
\<close>

lemma missing_keyword_by_version:
  "astype_str_keeps_na py \<Longrightarrow>
     keyword_mask (strip_keyword py [Str '' foo '', Num NaN]) = [True, True]"
  "\<not> astype_str_keeps_na py \<Longrightarrow>
     keyword_mask (strip_keyword py [Str '' foo '', Num NaN]) = [True, False]"
  by (simp_all add: keyword_mask_def strip_keyword_def astype_str_def strip_def is_space_def)

text \<open>
  Claim C6, as the code has it. When the table has a \<open>Keyword\<close> column, the keywords
  of the output are the keywords of the input after \<^verbatim>\<open>astype(str)\<close> and trimming, in
  order, without those that are the empty string or the string \<open>nan\<close>, and the output
  has as many rows as there are such keywords: a row whose keyword is a string that is
  empty or \<open>nan\<close> after trimming is absent whatever its other cells hold, and every
  surviving keyword that is not missing is trimmed and not empty. When the table has no
  \<open>Keyword\<close> column (the guard of line 189) no row is dropped. What becomes of a row
  whose keyword is missing depends on the pandas version and is not part of the
  statement.
\<close>

theorem keyword_filter:
  "(case get_col df ''Keyword'' of
      None \<Rightarrow>
        nrows (prep_df py df) = nrows df \<and> get_col (prep_df py df) ''Keyword'' = None
    | Some col \<Rightarrow>
        (let kept = filter (\<lambda>k. k \<noteq> Str [] \<and> k \<noteq> Str ''nan'')
                      (map (\<lambda>x. str_strip (astype_str py x)) col)
         in get_col (prep_df py df) ''Keyword'' = Some kept \<and>
            nrows (prep_df py df) = length kept \<and>
            (\<forall>k\<in>set kept.
               k = Num NaN \<or> (\<exists>s. k = Str (strip s) \<and> strip s \<noteq> [] \<and> strip s \<noteq> ''nan'')))) \<and>
   str_strip (astype_str py (Str t)) = Str (strip t)"
proof -
  have str: "str_strip (astype_str py (Str t)) = Str (strip t)"
    by (simp add: astype_str_def)
  show ?thesis
  proof (cases "get_col df ''Keyword''")
    case None
    then show ?thesis
      using str prep_df_keyword_none [OF None, of py] by simp
  next
    case (Some col)
    have "k = Num NaN \<or> (\<exists>s. k = Str (strip s) \<and> strip s \<noteq> [] \<and> strip s \<noteq> ''nan'')"
      if "k \<in> set (filter (\<lambda>k. k \<noteq> Str [] \<and> k \<noteq> Str ''nan'')
                      (map (\<lambda>x. str_strip (astype_str py x)) col))" for k
    proof -
      from that obtain x where k: "k = str_strip (astype_str py x)" "k \<noteq> Str []" "k \<noteq> Str ''nan''"
        by auto
      from keyword_cell_cases [of py x] k show ?thesis by auto
    qed
    then show ?thesis
      using Some str prep_df_keyword_some [OF Some, of py] by (simp add: Let_def)
  qed
qed

theorem keyword_filter_witness:
  "get_col (prep_df plain_builtins demo_frame) ''Keyword'' = Some [Str ''foo''] \<and>
   nrows (prep_df plain_builtins demo_frame) = 1 \<and>
   get_col (prep_df plain_builtins junk_frame) ''Keyword'' = Some [] \<and>
   nrows (prep_df plain_builtins junk_frame) = 0"
  using keyword_filter [where df = demo_frame and py = plain_builtins]
        keyword_filter [where df = junk_frame and py = plain_builtins]
  by (simp add: demo_frame_def junk_frame_def get_col_def astype_str_def strip_def is_space_def
      plain_builtins_def Let_def)

text \<open>
  The claim as written drops every row that lacks a \<open>Keyword\<close> field. In a table
  with no \<open>Keyword\<close> column every row lacks it, and every row is kept.
\<close>

theorem keyword_filter_no_column_counterexample:
  "get_col inf_frame ''Keyword'' = None \<and>
   nrows inf_frame = 1 \<and>
   nrows (prep_df plain_builtins inf_frame) = 1 \<and>
   get_col (prep_df plain_builtins inf_frame) ''Keyword'' = None"
  unfolding prep_df_inf
  by (simp add: inf_frame_def inf_out_def get_col_def)

subsection \<open>A table with no usable row\<close>

text \<open>
  Claim C8, as the code has it. Nothing loaded, or a table with no row or no column,
  stops the page at the upload prompt before the pipeline runs (lines 281 to 285); this
  guard is the caller's. The pipeline raises no signal of its own: for any other table
  the page renders what \<open>prep_df\<close> returns, and when no keyword of the table is usable
  that is an ordinary table with zero rows.
\<close>

theorem no_usable_data:
  "app py None = Upload_Prompt \<and>
   (frame_empty df \<longrightarrow> app py (Some df) = Upload_Prompt) \<and>
   (\<not> frame_empty df \<longrightarrow> app py (Some df) = Rendered (prep_df py df)) \<and>
   ((\<exists>col. get_col df ''Keyword'' = Some col \<and>
           (\<forall>x\<in>set col. str_strip (astype_str py x) = Str [] \<or>
                          str_strip (astype_str py x) = Str ''nan''))
      \<longrightarrow> nrows (prep_df py df) = 0 \<and> (wf_frame df \<longrightarrow> wf_frame (prep_df py df)))"
  using prep_df_no_usable_keyword [of df _ py] wf_prep_df [of df py]
  by (auto simp: app_def)

theorem no_usable_data_witness:
  "\<not> frame_empty junk_frame \<and>
   app plain_builtins (Some junk_frame) = Rendered junk_out \<and>
   nrows junk_out = 0 \<and> wf_frame junk_out \<and>
   app plain_builtins (Some \<lparr>nrows = 0, columns = [(''Keyword'', [])]\<rparr>) = Upload_Prompt"
  using no_usable_data [where df = junk_frame and py = plain_builtins]
        no_usable_data [where df = "\<lparr>nrows = 0, columns = [(''Keyword'', [])]\<rparr>" and py = plain_builtins]
  unfolding prep_df_junk
  by (simp add: frame_empty_def junk_frame_def junk_out_def wf_frame_def)

text \<open>
  The claim as written has the pipeline signal "no usable data" when no row survives the
  filter. For the two-row table whose keywords are \<open>nan\<close> and blank, the page does not
  stop at the prompt: it renders the zero-row table \<open>prep_df\<close> returned.
\<close>

theorem no_signal_counterexample:
  "\<not> frame_empty junk_frame \<and>
   nrows (prep_df plain_builtins junk_frame) = 0 \<and>
   app plain_builtins (Some junk_frame) = Rendered (prep_df plain_builtins junk_frame) \<and>
   app plain_builtins (Some junk_frame) \<noteq> Upload_Prompt"
proof -
  have e: "\<not> frame_empty junk_frame"
    by (simp add: frame_empty_def junk_frame_def)
  have n: "nrows (prep_df plain_builtins junk_frame) = 0"
    unfolding prep_df_junk by (simp add: junk_out_def)
  from e n show ?thesis by (simp add: app_def)
qed

subsection \<open>The caller's table\<close>

lemma prep_df_store_result:
  assumes "raw < length h"
  shows "\<exists>d h'. prep_df_store py raw h = (d, h') \<and> length h \<le> d \<and> d < length h' \<and>
           h' ! d = prep_df py (h ! raw) \<and> take (length h) h' = h"
proof (cases "has_col (coerce_stage py (rename_stage (h ! raw))) ''Keyword''")
  case True
  with assms show ?thesis
    by (simp add: prep_df_store_def new_frame_def in_place_def Let_def nth_append
        prep_df_def derive_def keyword_stage_def)
next
  case False
  with assms show ?thesis
    by (simp add: prep_df_store_def new_frame_def in_place_def Let_def nth_append
        prep_df_def derive_def keyword_stage_def)
qed

text \<open>
  Claim C10. \<open>prep_df\<close> works on a copy: after the call the frame the caller passed,
  and every other frame that existed before, is what it was; the result is a frame
  that did not exist before, and it holds the enriched table.
\<close>

theorem prep_df_leaves_input:
  assumes "raw < length h"
  shows "let (df, h') = prep_df_store py raw h
         in h' ! raw = h ! raw \<and>
            take (length h) h' = h \<and>
            length h \<le> df \<and> df < length h' \<and>
            h' ! df = prep_df py (h ! raw)"
proof -
  from prep_df_store_result [OF assms, of py]
  obtain d h' where r: "prep_df_store py raw h = (d, h')" "length h \<le> d" "d < length h'"
    "h' ! d = prep_df py (h ! raw)" "take (length h) h' = h"
    by blast
  have "h' ! raw = take (length h) h' ! raw"
    using assms by simp
  then have "h' ! raw = h ! raw"
    by (simp add: r(5))
  with r show ?thesis by simp
qed

theorem prep_df_leaves_input_witness:
  "(0::nat) < length [demo_frame] \<and>
   snd (prep_df_store plain_builtins 0 [demo_frame]) ! 0 = demo_frame \<and>
   take 1 (snd (prep_df_store plain_builtins 0 [demo_frame])) = [demo_frame] \<and>
   snd (prep_df_store plain_builtins 0 [demo_frame]) ! fst (prep_df_store plain_builtins 0 [demo_frame]) = demo_out"
  using prep_df_leaves_input [of 0 "[demo_frame]" plain_builtins]
  by (simp add: split_def Let_def prep_df_demo)

text \<open>
  Claim C9. Running the pipeline a second time on the same raw table, after the first
  run has finished, produces a table equal to the first result in every cell, and
  leaves the first result as it was.
\<close>

theorem prep_df_deterministic:
  assumes "raw < length h"
  shows "let (df1, h1) = prep_df_store py raw h;
             (df2, h2) = prep_df_store py raw h1
         in h2 ! df2 = h1 ! df1 \<and> h2 ! df1 = h1 ! df1 \<and> h2 ! df2 = prep_df py (h ! raw)"
proof -
  from prep_df_store_result [OF assms, of py]
  obtain d1 h1 where r1: "prep_df_store py raw h = (d1, h1)" "length h \<le> d1" "d1 < length h1"
    "h1 ! d1 = prep_df py (h ! raw)" "take (length h) h1 = h"
    by blast
  have raw1: "raw < length h1" using assms r1 by simp
  have same: "h1 ! raw = h ! raw"
  proof -
    have "h1 ! raw = take (length h) h1 ! raw" using assms by simp
    then show ?thesis by (simp add: r1(5))
  qed
  from prep_df_store_result [OF raw1, of py]
  obtain d2 h2 where r2: "prep_df_store py raw h1 = (d2, h2)" "length h1 \<le> d2" "d2 < length h2"
    "h2 ! d2 = prep_df py (h1 ! raw)" "take (length h1) h2 = h1"
    by blast
  have keep: "h2 ! d1 = h1 ! d1"
  proof -
    have "h2 ! d1 = take (length h1) h2 ! d1" using r1(3) by simp
    then show ?thesis by (simp add: r2(5))
  qed
  show ?thesis
    using r1 r2 same keep by simp
qed

theorem prep_df_deterministic_witness:
  "(0::nat) < length [demo_frame] \<and>
   snd (prep_df_store plain_builtins 0 (snd (prep_df_store plain_builtins 0 [demo_frame]))) !
     fst (prep_df_store plain_builtins 0 (snd (prep_df_store plain_builtins 0 [demo_frame]))) =
   snd (prep_df_store plain_builtins 0 [demo_frame]) ! fst (prep_df_store plain_builtins 0 [demo_frame])"
  using prep_df_deterministic [of 0 "[demo_frame]" plain_builtins]
  by (simp add: split_def Let_def)

end
